theory Spec2Isabelle
  imports Main "HOL-Library.Sublist" "HOL-Library.Char_ord" "HOL-Library.List_Lexorder"
begin

section \<open>Go strings\<close>

text \<open>
  A Go string is a sequence of bytes; \<^typ>\<open>string\<close> is a list of 8-bit characters.
  The functions of package \<open>strings\<close> that \<open>bridge/gitlab/config.go\<close> calls are
  written out on that representation.
\<close>

definition byte :: "char \<Rightarrow> nat" where
  "byte c = of_char c"

definition HasPrefix :: "string \<Rightarrow> string \<Rightarrow> bool" where
  "HasPrefix s pre = prefix pre s"

definition HasSuffix :: "string \<Rightarrow> string \<Rightarrow> bool" where
  "HasSuffix s suf = prefix (rev suf) (rev s)"

definition TrimSuffix :: "string \<Rightarrow> string \<Rightarrow> string" where
  "TrimSuffix s suf = (if HasSuffix s suf then take (length s - length suf) s else s)"

text \<open>\<open>strings.Index\<close>: the offset of the first occurrence, \<open>None\<close> for Go's \<open>-1\<close>.\<close>

fun Index :: "string \<Rightarrow> string \<Rightarrow> nat option" where
  "Index [] sub = (if sub = [] then Some 0 else None)"
| "Index (c # cs) sub =
     (if prefix sub (c # cs) then Some 0 else map_option Suc (Index cs sub))"

definition LastIndex :: "string \<Rightarrow> string \<Rightarrow> nat option" where
  "LastIndex s sub =
     map_option (\<lambda>i. length s - length sub - i) (Index (rev s) (rev sub))"

definition Contains :: "string \<Rightarrow> string \<Rightarrow> bool" where
  "Contains s sub = (Index s sub \<noteq> None)"

text \<open>\<open>strings.Replace(s, old, new, 1)\<close>: only the first occurrence is rewritten.\<close>

definition Replace1 :: "string \<Rightarrow> string \<Rightarrow> string \<Rightarrow> string" where
  "Replace1 s old new =
     (case Index s old of
        None \<Rightarrow> s
      | Some i \<Rightarrow> take i s @ new @ drop (i + length old) s)"

text \<open>
  \<open>strings.TrimSpace\<close> removes, at both ends, every code point for which
  \<open>unicode.IsSpace\<close> holds. On the bytes of the string these are the six ASCII spaces and
  the UTF-8 encodings of U+0085, U+00A0, U+1680, U+2000..U+200A, U+2028, U+2029, U+202F,
  U+205F and U+3000.
\<close>

definition spaceRunes :: "string list" where
  "spaceRunes =
     [[CHR 0x09], [CHR 0x0A], [CHR 0x0B], [CHR 0x0C], [CHR 0x0D], [CHR 0x20],
      [CHR 0xC2, CHR 0x85], [CHR 0xC2, CHR 0xA0], [CHR 0xE1, CHR 0x9A, CHR 0x80],
      [CHR 0xE2, CHR 0x80, CHR 0x80], [CHR 0xE2, CHR 0x80, CHR 0x81],
      [CHR 0xE2, CHR 0x80, CHR 0x82], [CHR 0xE2, CHR 0x80, CHR 0x83],
      [CHR 0xE2, CHR 0x80, CHR 0x84], [CHR 0xE2, CHR 0x80, CHR 0x85],
      [CHR 0xE2, CHR 0x80, CHR 0x86], [CHR 0xE2, CHR 0x80, CHR 0x87],
      [CHR 0xE2, CHR 0x80, CHR 0x88], [CHR 0xE2, CHR 0x80, CHR 0x89],
      [CHR 0xE2, CHR 0x80, CHR 0x8A], [CHR 0xE2, CHR 0x80, CHR 0xA8],
      [CHR 0xE2, CHR 0x80, CHR 0xA9], [CHR 0xE2, CHR 0x80, CHR 0xAF],
      [CHR 0xE2, CHR 0x81, CHR 0x9F], [CHR 0xE3, CHR 0x80, CHR 0x80]]"

text \<open>The number of leading bytes of \<open>s\<close> that form one of the given runes, 0 if none does.\<close>

definition runeWidth :: "string list \<Rightarrow> string \<Rightarrow> nat" where
  "runeWidth rs s = (case find (\<lambda>r. r \<noteq> [] \<and> prefix r s) rs of None \<Rightarrow> 0 | Some r \<Rightarrow> length r)"

function TrimLeftRunes :: "string list \<Rightarrow> string \<Rightarrow> string" where
  "TrimLeftRunes rs s =
     (if runeWidth rs s = 0 then s else TrimLeftRunes rs (drop (runeWidth rs s) s))"
  by pat_completeness auto
termination
proof (relation "measure (\<lambda>(rs, s). length s)")
  show "wf (measure (\<lambda>(rs, s). length s))" by simp
next
  fix rs :: "string list" and s :: string
  assume w: "runeWidth rs s \<noteq> 0"
  then obtain r where "r \<noteq> []" "prefix r s"
    by (auto simp: runeWidth_def find_Some_iff split: option.splits)
  then have "s \<noteq> []" by auto
  with w show "((rs, drop (runeWidth rs s) s), (rs, s)) \<in> measure (\<lambda>(rs, s). length s)"
    by simp
qed

declare TrimLeftRunes.simps [simp del]

definition TrimSpace :: "string \<Rightarrow> string" where
  "TrimSpace s =
     rev (TrimLeftRunes (map rev spaceRunes) (rev (TrimLeftRunes spaceRunes s)))"

section \<open>Go strconv\<close>

definition isDigit :: "char \<Rightarrow> bool" where
  "isDigit c \<longleftrightarrow> CHR ''0'' \<le> c \<and> c \<le> CHR ''9''"

definition isLetter :: "char \<Rightarrow> bool" where
  "isLetter c \<longleftrightarrow> (CHR ''a'' \<le> c \<and> c \<le> CHR ''z'') \<or> (CHR ''A'' \<le> c \<and> c \<le> CHR ''Z'')"

definition decimal :: "string \<Rightarrow> nat" where
  "decimal ds = foldl (\<lambda>n ch. n * 10 + (byte ch - byte CHR ''0'')) 0 ds"

text \<open>
  \<open>strconv.Atoi\<close>: an optional sign, then one or more decimal digits, the value within the
  64-bit \<open>int\<close>; anything else is an error (\<open>None\<close>).
\<close>

definition Atoi :: "string \<Rightarrow> int option" where
  "Atoi s =
     (let neg = (s \<noteq> [] \<and> hd s = CHR ''-'');
          ds = (if s \<noteq> [] \<and> (hd s = CHR ''-'' \<or> hd s = CHR ''+'') then tl s else s)
      in if ds = [] \<or> \<not> list_all isDigit ds then None
         else let n = int (decimal ds); v = (if neg then - n else n)
              in if v < - 9223372036854775808 \<or> 9223372036854775807 < v then None else Some v)"

function digitsOf :: "nat \<Rightarrow> string" where
  "digitsOf n =
     (if n < 10 then [char_of (byte CHR ''0'' + n)]
      else digitsOf (n div 10) @ [char_of (byte CHR ''0'' + n mod 10)])"
  by pat_completeness auto
termination
  by (relation "measure id") auto

declare digitsOf.simps [simp del]

definition Itoa :: "int \<Rightarrow> string" where
  "Itoa i = (if i < 0 then CHR ''-'' # digitsOf (nat (- i)) else digitsOf (nat i))"

section \<open>Go net/url: Parse\<close>

text \<open>
  \<open>getProjectPath\<close> hands the cleaned reference to \<open>url.Parse\<close> of the Go standard
  library and reads the field \<open>Path\<close> of the result. The parser is written out here as
  the library of Go 1.13 defines it (\<open>Parse\<close>, \<open>parse\<close>, \<open>getscheme\<close>, \<open>split\<close>,
  \<open>parseAuthority\<close>, \<open>parseHost\<close>, \<open>validOptionalPort\<close>, \<open>validUserinfo\<close>,
  \<open>unescape\<close>, \<open>shouldEscape\<close>). The hint field \<open>RawPath\<close> is left out: nothing reads it.
\<close>

datatype encoding =
  encodePath | encodePathSegment | encodeHost | encodeZone
| encodeUserPassword | encodeQueryComponent | encodeFragment

record URL =
  Scheme :: string
  Opaque :: string
  User :: "(string \<times> string option) option"
  Host :: string
  Path :: string
  ForceQuery :: bool
  RawQuery :: string
  Fragment :: string

definition emptyURL :: URL where
  "emptyURL = \<lparr>Scheme = [], Opaque = [], User = None, Host = [], Path = [],
     ForceQuery = False, RawQuery = [], Fragment = []\<rparr>"

definition ishex :: "char \<Rightarrow> bool" where
  "ishex c \<longleftrightarrow> isDigit c \<or> (CHR ''a'' \<le> c \<and> c \<le> CHR ''f'') \<or> (CHR ''A'' \<le> c \<and> c \<le> CHR ''F'')"

definition unhex :: "char \<Rightarrow> nat" where
  "unhex c =
     (if isDigit c then byte c - byte CHR ''0''
      else if CHR ''a'' \<le> c \<and> c \<le> CHR ''f'' then byte c - byte CHR ''a'' + 10
      else if CHR ''A'' \<le> c \<and> c \<le> CHR ''F'' then byte c - byte CHR ''A'' + 10
      else 0)"

definition shouldEscape :: "char \<Rightarrow> encoding \<Rightarrow> bool" where
  "shouldEscape c mode =
     (if isLetter c \<or> isDigit c then False
      else if (mode = encodeHost \<or> mode = encodeZone) \<and> c \<in> set ''!$&'()*+,;=:[]<>\"'' then False
      else if c \<in> set ''-_.~'' then False
      else if c \<in> set ''$&+,/:;=?@'' \<and> mode = encodePath then c = CHR ''?''
      else if c \<in> set ''$&+,/:;=?@'' \<and> mode = encodePathSegment then c \<in> set ''/;,?''
      else if c \<in> set ''$&+,/:;=?@'' \<and> mode = encodeUserPassword then c \<in> set ''@/?:''
      else if c \<in> set ''$&+,/:;=?@'' \<and> mode = encodeQueryComponent then True
      else if c \<in> set ''$&+,/:;=?@'' \<and> mode = encodeFragment then False
      else if mode = encodeFragment \<and> c \<in> set ''!()*'' then False
      else True)"

text \<open>The first pass of \<open>unescape\<close>: every \<open>%\<close> starts a well-formed escape that the mode allows.\<close>

fun unescapeOk :: "encoding \<Rightarrow> string \<Rightarrow> bool" where
  "unescapeOk mode [] = True"
| "unescapeOk mode [c] =
     (if c = CHR ''%'' then False
      else if c = CHR ''+'' then True
      else \<not> ((mode = encodeHost \<or> mode = encodeZone) \<and> byte c < 0x80 \<and> shouldEscape c encodeHost))"
| "unescapeOk mode [c, a] =
     (if c = CHR ''%'' then False
      else if c = CHR ''+'' then unescapeOk mode [a]
      else \<not> ((mode = encodeHost \<or> mode = encodeZone) \<and> byte c < 0x80 \<and> shouldEscape c encodeHost)
           \<and> unescapeOk mode [a])"
| "unescapeOk mode (c # a # b # rest) =
     (if c = CHR ''%'' then
        (if \<not> ishex a \<or> \<not> ishex b then False
         else if mode = encodeHost \<and> unhex a < 8 \<and> [c, a, b] \<noteq> ''%25'' then False
         else if mode = encodeZone \<and> [c, a, b] \<noteq> ''%25''
                 \<and> char_of (unhex a * 16 + unhex b) \<noteq> CHR '' ''
                 \<and> shouldEscape (char_of (unhex a * 16 + unhex b)) encodeHost then False
         else unescapeOk mode rest)
      else if c = CHR ''+'' then unescapeOk mode (a # b # rest)
      else \<not> ((mode = encodeHost \<or> mode = encodeZone) \<and> byte c < 0x80 \<and> shouldEscape c encodeHost)
           \<and> unescapeOk mode (a # b # rest))"

text \<open>The second pass of \<open>unescape\<close>, run only on strings that passed the first.\<close>

fun unescapeBytes :: "encoding \<Rightarrow> string \<Rightarrow> string" where
  "unescapeBytes mode (c # a # b # rest) =
     (if c = CHR ''%'' then char_of (unhex a * 16 + unhex b) # unescapeBytes mode rest
      else if c = CHR ''+'' \<and> mode = encodeQueryComponent then CHR '' '' # unescapeBytes mode (a # b # rest)
      else c # unescapeBytes mode (a # b # rest))"
| "unescapeBytes mode (c # cs) =
     (if c = CHR ''+'' \<and> mode = encodeQueryComponent then CHR '' '' # unescapeBytes mode cs
      else c # unescapeBytes mode cs)"
| "unescapeBytes mode [] = []"

definition unescape :: "string \<Rightarrow> encoding \<Rightarrow> string option" where
  "unescape s mode = (if unescapeOk mode s then Some (unescapeBytes mode s) else None)"

definition stringContainsCTLByte :: "string \<Rightarrow> bool" where
  "stringContainsCTLByte s = list_ex (\<lambda>b. byte b < 0x20 \<or> byte b = 0x7f) s"

fun getschemeFrom :: "string \<Rightarrow> nat \<Rightarrow> string \<Rightarrow> (string \<times> string) option" where
  "getschemeFrom rawurl i [] = Some ([], rawurl)"
| "getschemeFrom rawurl i (c # cs) =
     (if isLetter c then getschemeFrom rawurl (i + 1) cs
      else if isDigit c \<or> c = CHR ''+'' \<or> c = CHR ''-'' \<or> c = CHR ''.'' then
        (if i = 0 then Some ([], rawurl) else getschemeFrom rawurl (i + 1) cs)
      else if c = CHR '':'' then
        (if i = 0 then None else Some (take i rawurl, cs))
      else Some ([], rawurl))"

definition getscheme :: "string \<Rightarrow> (string \<times> string) option" where
  "getscheme rawurl = getschemeFrom rawurl 0 rawurl"

definition ToLower :: "string \<Rightarrow> string" where
  "ToLower s = map (\<lambda>c. if CHR ''A'' \<le> c \<and> c \<le> CHR ''Z'' then char_of (byte c + 32) else c) s"

definition split :: "string \<Rightarrow> string \<Rightarrow> bool \<Rightarrow> string \<times> string" where
  "split s sep cutc =
     (case Index s sep of
        None \<Rightarrow> (s, [])
      | Some i \<Rightarrow> if cutc then (take i s, drop (i + length sep) s) else (take i s, drop i s))"

definition validOptionalPort :: "string \<Rightarrow> bool" where
  "validOptionalPort port =
     (case port of [] \<Rightarrow> True | c # ds \<Rightarrow> c = CHR '':'' \<and> list_all isDigit ds)"

definition validUserinfo :: "string \<Rightarrow> bool" where
  "validUserinfo s =
     list_all (\<lambda>r. isLetter r \<or> isDigit r \<or> r \<in> set ''-._:~!$&'()*+,;=%@'') s"

definition parseHost :: "string \<Rightarrow> string option" where
  "parseHost host =
     (if HasPrefix host ''['' then
        (case LastIndex host '']'' of
           None \<Rightarrow> None
         | Some i \<Rightarrow>
             if \<not> validOptionalPort (drop (i + 1) host) then None
             else (case Index (take i host) ''%25'' of
                     Some zone \<Rightarrow>
                       (case unescape (take zone host) encodeHost of
                          None \<Rightarrow> None
                        | Some host1 \<Rightarrow>
                            (case unescape (drop zone (take i host)) encodeZone of
                               None \<Rightarrow> None
                             | Some host2 \<Rightarrow>
                                 (case unescape (drop i host) encodeHost of
                                    None \<Rightarrow> None
                                  | Some host3 \<Rightarrow> Some (host1 @ host2 @ host3))))
                   | None \<Rightarrow> unescape host encodeHost))
      else (case LastIndex host '':'' of
              Some i \<Rightarrow>
                if \<not> validOptionalPort (drop i host) then None else unescape host encodeHost
            | None \<Rightarrow> unescape host encodeHost))"

definition parseAuthority :: "string \<Rightarrow> ((string \<times> string option) option \<times> string) option" where
  "parseAuthority authority =
     (case LastIndex authority ''@'' of
        None \<Rightarrow> map_option (\<lambda>h. (None, h)) (parseHost authority)
      | Some i \<Rightarrow>
          (case parseHost (drop (i + 1) authority) of
             None \<Rightarrow> None
           | Some h \<Rightarrow>
               let userinfo = take i authority in
               if \<not> validUserinfo userinfo then None
               else if \<not> Contains userinfo '':'' then
                 map_option (\<lambda>u. (Some (u, None), h)) (unescape userinfo encodeUserPassword)
               else
                 (case split userinfo '':'' True of
                    (username, password) \<Rightarrow>
                      (case unescape username encodeUserPassword of
                         None \<Rightarrow> None
                       | Some u \<Rightarrow>
                           (case unescape password encodeUserPassword of
                              None \<Rightarrow> None
                            | Some p \<Rightarrow> Some (Some (u, Some p), h))))))"

definition setPath :: "URL \<Rightarrow> string \<Rightarrow> URL option" where
  "setPath u p = map_option (\<lambda>path. u\<lparr>Path := path\<rparr>) (unescape p encodePath)"

text \<open>\<open>parse(rawurl, viaRequest)\<close> with \<open>viaRequest = false\<close>, the only way \<open>Parse\<close> calls it.\<close>

definition parse :: "string \<Rightarrow> URL option" where
  "parse rawurl =
     (if stringContainsCTLByte rawurl then None
      else if rawurl = ''*'' then Some (emptyURL\<lparr>Path := ''*''\<rparr>)
      else
        (case getscheme rawurl of
           None \<Rightarrow> None
         | Some (scheme, rest0) \<Rightarrow>
             let url = emptyURL\<lparr>Scheme := ToLower scheme\<rparr>;
                 forceq = (HasSuffix rest0 ''?'' \<and> length (filter (\<lambda>c. c = CHR ''?'') rest0) = 1);
                 rest = (if forceq then take (length rest0 - 1) rest0 else fst (split rest0 ''?'' True));
                 url = (if forceq then url\<lparr>ForceQuery := True\<rparr>
                        else url\<lparr>RawQuery := snd (split rest0 ''?'' True)\<rparr>)
             in
               if \<not> HasPrefix rest ''/'' \<and> Scheme url \<noteq> [] then Some (url\<lparr>Opaque := rest\<rparr>)
               else if \<not> HasPrefix rest ''/''
                       \<and> (case Index rest '':'' of
                             None \<Rightarrow> False
                           | Some colon \<Rightarrow>
                               (case Index rest ''/'' of None \<Rightarrow> True | Some slash \<Rightarrow> colon < slash))
               then None
               else if (Scheme url \<noteq> [] \<or> \<not> HasPrefix rest ''///'') \<and> HasPrefix rest ''//'' then
                 (case split (drop 2 rest) ''/'' False of
                    (authority, rest') \<Rightarrow>
                      (case parseAuthority authority of
                         None \<Rightarrow> None
                       | Some (user, host) \<Rightarrow> setPath (url\<lparr>User := user, Host := host\<rparr>) rest'))
               else setPath url rest))"

definition Parse :: "string \<Rightarrow> URL option" where
  "Parse rawurl =
     (case split rawurl ''#'' True of
        (u, frag) \<Rightarrow>
          (case parse u of
             None \<Rightarrow> None
           | Some url \<Rightarrow>
               if frag = [] then Some url
               else map_option (\<lambda>f. url\<lparr>Fragment := f\<rparr>) (unescape frag encodeFragment)))"

section \<open>bridge/gitlab/config.go: reference normalisation\<close>

text \<open>
  A Go call ends in one of three ways: it returns a value, it returns an error, or it
  panics. A panic is not an error value: \<open>if err != nil\<close> does not see it, and it unwinds
  every caller in this file, none of which recovers.
\<close>

datatype error =
  ErrBadProjectURL
| ErrMissingURL
| ErrBaseURLMismatch
| ErrIdentity
| ErrLoadCredential
| ErrCredentialUser
| ErrNotAToken
| ErrListCredentials
| ErrStoreCredential
| ErrGetRemotes
| ErrReadStdin
| ErrBuildClient
| ErrGetProject
| ErrMissingKey string
| ErrUnexpectedTarget string
| Wrap error string

datatype 'a outcome = Return 'a | Failure error | Panic

text \<open>
  \<open>objectUrl.Path[1:]\<close> is a slice expression with low bound 1: on an empty \<open>Path\<close> the
  bound exceeds the length and the runtime panics.
\<close>

definition getProjectPath :: "string \<Rightarrow> string outcome" where
  "getProjectPath projectUrl =
     (let cleanUrl = TrimSuffix projectUrl ''.git'';
          cleanUrl = Replace1 cleanUrl ''git@'' ''https://''
      in case Parse cleanUrl of
           None \<Rightarrow> Failure ErrBadProjectURL
         | Some objectUrl \<Rightarrow>
             if length (Path objectUrl) < 1 then Panic
             else Return (drop 1 (Path objectUrl)))"

text \<open>
  \<open>remotes\<close> is a Go map, ranged over in an order the runtime chooses; the model takes the
  entries (name, reference) in the order of that iteration.
\<close>

fun getValidGitlabRemoteURLs :: "(string \<times> string) list \<Rightarrow> string list outcome" where
  "getValidGitlabRemoteURLs [] = Return []"
| "getValidGitlabRemoteURLs ((name, u) # remotes) =
     (case getProjectPath u of
        Panic \<Rightarrow> Panic
      | Failure err \<Rightarrow> getValidGitlabRemoteURLs remotes
      | Return path \<Rightarrow>
          (case getValidGitlabRemoteURLs remotes of
             Return urls \<Rightarrow> Return ((''gitlab.com'' @ path) # urls)
           | other \<Rightarrow> other))"

section \<open>The collaborators of the flow\<close>

subsection \<open>Credentials\<close>

text \<open>
  Modelled from the spec: package \<open>bridge/core/auth\<close> is not part of the sources at hand.
  A credential carries its kind, its stable identifier, the owning user, the target
  service tag, the secret and the creation time (spec, data model).
\<close>

datatype CredentialKind = KindToken | KindLoginPassword

record Credential =
  Kind :: CredentialKind
  ID :: string
  UserId :: string
  Target :: string
  Value :: string
  CreateTime :: nat

subsection \<open>What the flow prints and touches\<close>

datatype event =
  Println string
| Print string
| PrintToken int Credential
| PrintRemote int string
| ReadStdin
| GetRemotes
| GetUserIdentity
| AuthList
| AuthLoadWithPrefix string
| AuthIdExist string
| AuthStore Credential
| GetProject string string

datatype identity = UserIdentity string | NoIdentitySet | IdentityError

text \<open>
  The world the flow runs in. \<open>stdin\<close> holds the lines the operator will still type, one
  per read (a line-oriented console); after the last one the read fails with end of
  input. \<open>credentials\<close> is the credential store, \<open>trace\<close> the effects so far in order.
  The other fields are the answers of the collaborators and the constants of the
  packages that are not part of the sources at hand: \<open>defaultBaseURL\<close> (package gitlab),
  \<open>DefaultUserId\<close> (package auth), the identifier a new token gets from its content
  (\<open>tokenID\<close>, by user, target and secret), the clock, and the remote service
  (\<open>buildClientFails\<close> by base URL; \<open>gitlabProject\<close> by base URL, secret and path, \<open>None\<close>
  for any failure of the lookup).
\<close>

record world =
  stdin :: "string list"
  trace :: "event list"
  credentials :: "Credential list"
  userIdentity :: identity
  remotes :: "(string \<times> string) list option"
  now :: nat
  listFails :: bool
  storeFails :: bool
  buildClientFails :: "string \<Rightarrow> bool"
  gitlabProject :: "string \<Rightarrow> string \<Rightarrow> string \<Rightarrow> int option"
  tokenID :: "string \<Rightarrow> string \<Rightarrow> string \<Rightarrow> string"
  defaultBaseURL :: string
  DefaultUserId :: string

definition emit :: "event list \<Rightarrow> world \<Rightarrow> world" where
  "emit es w = w\<lparr>trace := trace w @ es\<rparr>"

text \<open>Modelled from the spec: the target tag and the keys of the produced mapping.\<close>

definition target :: string where
  "target = ''gitlab''"

definition ConfigKeyTarget :: string where
  "ConfigKeyTarget = ''target''"

definition keyProjectID :: string where
  "keyProjectID = ''projectId''"

definition keyGitlabBaseUrl :: string where
  "keyGitlabBaseUrl = ''baseUrl''"

text \<open>
  Modelled from the spec: \<open>auth.NewToken\<close> builds a Token credential from the user, the
  secret and the target; its identifier is a function of that content alone, its
  creation time is the current time.
\<close>

definition NewToken :: "world \<Rightarrow> string \<Rightarrow> string \<Rightarrow> string \<Rightarrow> Credential" where
  "NewToken w userId val tgt =
     \<lparr>Kind = KindToken, ID = tokenID w userId tgt val, UserId = userId, Target = tgt,
      Value = val, CreateTime = now w\<rparr>"

text \<open>
  Modelled from the spec: \<open>auth.List\<close> with the filters \<open>WithUserId\<close>, \<open>WithTarget\<close>,
  \<open>WithKind\<close> returns the stored credentials matching all three, or an error.
\<close>

definition auth_List :: "world \<Rightarrow> string \<Rightarrow> string \<Rightarrow> CredentialKind
    \<Rightarrow> Credential list option \<times> world" where
  "auth_List w userId tgt kind =
     (if listFails w then (None, emit [AuthList] w)
      else (Some (filter (\<lambda>c. UserId c = userId \<and> Target c = tgt \<and> Kind c = kind) (credentials w)),
            emit [AuthList] w))"

text \<open>
  Modelled from the spec: \<open>auth.LoadWithPrefix\<close> returns the stored credential whose
  identifier starts with the prefix when exactly one does, and fails otherwise.
\<close>

definition auth_LoadWithPrefix :: "world \<Rightarrow> string \<Rightarrow> Credential option \<times> world" where
  "auth_LoadWithPrefix w pre =
     (case filter (\<lambda>c. HasPrefix (ID c) pre) (credentials w) of
        [c] \<Rightarrow> (Some c, emit [AuthLoadWithPrefix pre] w)
      | _ \<Rightarrow> (None, emit [AuthLoadWithPrefix pre] w))"

text \<open>Modelled from the spec: \<open>auth.IdExist\<close> tells whether the store holds an entry with the identifier.\<close>

definition auth_IdExist :: "world \<Rightarrow> string \<Rightarrow> bool \<times> world" where
  "auth_IdExist w i = (list_ex (\<lambda>c. ID c = i) (credentials w), emit [AuthIdExist i] w)"

text \<open>
  Modelled from the spec: \<open>auth.Store\<close> inserts the credential into the store, or fails
  and leaves the store as it was. The store is a sequence here, so that an insert of an
  identifier already present would show as a second entry.
\<close>

definition auth_Store :: "world \<Rightarrow> Credential \<Rightarrow> error option \<times> world" where
  "auth_Store w c =
     (if storeFails w then (Some ErrStoreCredential, emit [AuthStore c] w)
      else (None, (emit [AuthStore c] w)\<lparr>credentials := credentials w @ [c]\<rparr>))"

text \<open>
  \<open>bufio.NewReader(os.Stdin).ReadString('\n')\<close>: the next line with its newline, or an
  error when the input has ended.
\<close>

definition ReadString :: "world \<Rightarrow> string option \<times> world" where
  "ReadString w =
     (case stdin w of
        [] \<Rightarrow> (None, emit [ReadStdin] w)
      | l # ls \<Rightarrow> (Some (l @ [CHR 0x0A]), (emit [ReadStdin] w)\<lparr>stdin := ls\<rparr>))"

section \<open>bridge/gitlab/config.go: the interactive prompts\<close>

text \<open>
  The compiled pattern \<open>^[a-zA-Z0-9\-]{20}\<close> and its \<open>MatchString\<close>: the pattern is
  anchored at the start only, so a string matches when its first twenty characters are
  in the class.
\<close>

definition tokenClass :: "char \<Rightarrow> bool" where
  "tokenClass c \<longleftrightarrow> isLetter c \<or> isDigit c \<or> c = CHR ''-''"

definition re_MatchString :: "string \<Rightarrow> bool" where
  "re_MatchString s \<longleftrightarrow> 20 \<le> length s \<and> list_all tokenClass (take 20 s)"

text \<open>The \<open>for\<close> loop of \<open>promptToken\<close> (the pattern is a constant that compiles, so the panic above it is never raised).\<close>

function promptTokenLoop :: "world \<Rightarrow> string outcome \<times> world" where
  "promptTokenLoop w =
     (case ReadString (emit [Print ''Enter token: ''] w) of
        (None, w1) \<Rightarrow> (Failure ErrReadStdin, w1)
      | (Some line, w1) \<Rightarrow>
          let token = TrimSpace line in
          if re_MatchString token then (Return token, w1)
          else promptTokenLoop (emit [Println ''token has incorrect format''] w1))"
  by pat_completeness auto
termination
  by (relation "measure (\<lambda>w. length (stdin w))")
     (auto simp: ReadString_def emit_def split: list.splits)

declare promptTokenLoop.simps [simp del]

definition promptToken :: "world \<Rightarrow> string outcome \<times> world" where
  "promptToken w =
     promptTokenLoop (emit
       [Println ''You can generate a new token by visiting https://gitlab.com/profile/personal_access_tokens.'',
        Println ''Choose 'Create personal access token' and set the necessary access scope for your repository.'',
        Println [],
        Println (CHR 0x27 # ''api' access scope: to be able to make api calls''),
        Println []] w)"

text \<open>
  \<open>promptTokenOptions\<close>. \<open>sort.Sort(auth.ById(creds))\<close> orders the listed credentials by
  identifier, ascending. Every listed credential is a token (the list was filtered by
  \<open>WithKind(auth.KindToken)\<close>), so the type assertion in the printing loop holds.
\<close>

text \<open>
  The two places where \<open>promptTokenOptions\<close> asks for a new token (no stored token, or
  option 1) run the same statements: \<open>promptToken\<close>, then \<open>auth.NewToken\<close> on its value.
\<close>

definition tokenEntry :: "string \<Rightarrow> world \<Rightarrow> Credential outcome \<times> world" where
  "tokenEntry userId w =
     (case promptToken w of
        (Return val, w1) \<Rightarrow> (Return (NewToken w1 userId val target), w1)
      | (Failure err, w1) \<Rightarrow> (Failure err, w1)
      | (Panic, w1) \<Rightarrow> (Panic, w1))"

definition tokenMenu :: "Credential list \<Rightarrow> event list" where
  "tokenMenu creds =
     [Println [], Println ''[1]: enter my token'', Println [], Println ''Existing tokens for Gitlab:'']
     @ map (\<lambda>(i, cred). PrintToken (int i + 2) cred) (enumerate 0 creds)
     @ [Println [], Print ''Select option: '']"

function promptTokenOptions :: "string \<Rightarrow> world \<Rightarrow> Credential outcome \<times> world" where
  "promptTokenOptions userId w =
     (case auth_List w userId target KindToken of
        (None, w1) \<Rightarrow> (Failure ErrListCredentials, w1)
      | (Some listed, w1) \<Rightarrow>
          if length listed = 0 then tokenEntry userId w1
          else
            let creds = sort_key ID listed in
            (case ReadString (emit (tokenMenu creds) w1) of
               (None, w2) \<Rightarrow> (Failure ErrReadStdin, emit [Println []] w2)
             | (Some line0, w2) \<Rightarrow>
                 let w3 = emit [Println []] w2; line = TrimSpace line0 in
                 (case Atoi line of
                    None \<Rightarrow> promptTokenOptions userId (emit [Println ''invalid input''] w3)
                  | Some index \<Rightarrow>
                      if index < 1 \<or> index > int (length creds) + 1 then
                        promptTokenOptions userId (emit [Println ''invalid input''] w3)
                      else if index = 1 then tokenEntry userId w3
                      else (Return (creds ! nat (index - 2)), w3))))"
  by pat_completeness auto
termination
  by (relation "measure (\<lambda>(userId, w). length (stdin w))")
     (auto simp: ReadString_def emit_def auth_List_def split: list.splits if_splits)

declare promptTokenOptions.simps [simp del]

text \<open>The second loop of \<open>promptURL\<close>: the operator types the URL.\<close>

function promptURLManual :: "world \<Rightarrow> string outcome \<times> world" where
  "promptURLManual w =
     (case ReadString (emit [Print ''Gitlab project URL: ''] w) of
        (None, w1) \<Rightarrow> (Failure ErrReadStdin, w1)
      | (Some line, w1) \<Rightarrow>
          let url = TrimSpace line in
          if url = [] then promptURLManual (emit [Println ''URL is empty''] w1)
          else (Return url, w1))"
  by pat_completeness auto
termination
  by (relation "measure (\<lambda>w. length (stdin w))")
     (auto simp: ReadString_def emit_def split: list.splits)

declare promptURLManual.simps [simp del]

definition remoteMenu :: "string list \<Rightarrow> event list" where
  "remoteMenu validRemotes =
     [Println (CHR 0x0A # ''Detected projects:'')]
     @ map (\<lambda>(i, remote). PrintRemote (int i + 1) remote) (enumerate 0 validRemotes)
     @ [Print (CHR 0x0A # ''[0]: Another project'' @ [CHR 0x0A, CHR 0x0A]), Print ''Select option: '']"

text \<open>The first loop of \<open>promptURL\<close>: pick a detected project, or 0 to leave the loop and type one.\<close>

function promptURLSelect :: "string list \<Rightarrow> world \<Rightarrow> string outcome \<times> world" where
  "promptURLSelect validRemotes w =
     (case ReadString (emit (remoteMenu validRemotes) w) of
        (None, w1) \<Rightarrow> (Failure ErrReadStdin, w1)
      | (Some line0, w1) \<Rightarrow>
          (case Atoi (TrimSpace line0) of
             None \<Rightarrow> promptURLSelect validRemotes (emit [Println ''invalid input''] w1)
           | Some index \<Rightarrow>
               if index < 0 \<or> index > int (length validRemotes) then
                 promptURLSelect validRemotes (emit [Println ''invalid input''] w1)
               else if index = 0 then promptURLManual w1
               else (Return (validRemotes ! nat (index - 1)), w1)))"
  by pat_completeness auto
termination
  by (relation "measure (\<lambda>(validRemotes, w). length (stdin w))")
     (auto simp: ReadString_def emit_def split: list.splits)

declare promptURLSelect.simps [simp del]

definition promptURL :: "world \<Rightarrow> string outcome \<times> world" where
  "promptURL w =
     (case remotes (emit [GetRemotes] w) of
        None \<Rightarrow> (Failure (Wrap ErrGetRemotes ''getting remotes''), emit [GetRemotes] w)
      | Some rs \<Rightarrow>
          (case getValidGitlabRemoteURLs rs of
             Panic \<Rightarrow> (Panic, emit [GetRemotes] w)
           | Failure err \<Rightarrow> (Failure err, emit [GetRemotes] w)
           | Return validRemotes \<Rightarrow>
               if length validRemotes > 0 then promptURLSelect validRemotes (emit [GetRemotes] w)
               else promptURLManual (emit [GetRemotes] w)))"

section \<open>bridge/gitlab/config.go: validation and the Configure flow\<close>

text \<open>
  \<open>validateProjectURL\<close>. \<open>buildClient\<close> and the client's \<open>Projects.GetProject\<close> are the
  remote collaborator, answered by the world.
\<close>

definition validateProjectURL :: "string \<Rightarrow> string \<Rightarrow> Credential \<Rightarrow> world \<Rightarrow> int outcome \<times> world" where
  "validateProjectURL baseURL url token w =
     (case getProjectPath url of
        Panic \<Rightarrow> (Panic, w)
      | Failure err \<Rightarrow> (Failure err, w)
      | Return projectPath \<Rightarrow>
          if buildClientFails w baseURL then (Failure ErrBuildClient, w)
          else (case gitlabProject w baseURL (Value token) projectPath of
                  None \<Rightarrow> (Failure ErrGetProject, emit [GetProject baseURL projectPath] w)
                | Some projectID \<Rightarrow> (Return projectID, emit [GetProject baseURL projectPath] w)))"

type_synonym Configuration = "string \<rightharpoonup> string"

text \<open>\<open>ValidateConfig\<close> returns Go's \<open>error\<close>: \<open>None\<close> is \<open>nil\<close>.\<close>

definition ValidateConfig :: "Configuration \<Rightarrow> error option" where
  "ValidateConfig conf =
     (case conf ConfigKeyTarget of
        None \<Rightarrow> Some (ErrMissingKey ConfigKeyTarget)
      | Some v \<Rightarrow>
          if v \<noteq> target then Some (ErrUnexpectedTarget v)
          else (case conf keyProjectID of
                  None \<Rightarrow> Some (ErrMissingKey keyProjectID)
                | Some _ \<Rightarrow> None))"

record BridgeParams =
  Owner :: string
  Project :: string
  URL :: string
  BaseURL :: string
  CredPrefix :: string
  TokenRaw :: string

text \<open>Lines 31 to 48 of \<open>Configure\<close>: the warnings, the precondition, the default for \<open>params.URL\<close>.\<close>

definition warnings :: "BridgeParams \<Rightarrow> event list" where
  "warnings params =
     (if Project params \<noteq> [] then [Println ''warning: --project is ineffective for a gitlab bridge''] else [])
     @ (if Owner params \<noteq> [] then [Println ''warning: --owner is ineffective for a gitlab bridge''] else [])"

definition withDefaultURL :: "BridgeParams \<Rightarrow> world \<Rightarrow> BridgeParams" where
  "withDefaultURL params w = (if URL params = [] then params\<lparr>URL := defaultBaseURL w\<rparr> else params)"

text \<open>The first \<open>switch\<close> of \<open>Configure\<close> (get project url).\<close>

definition projectURL :: "BridgeParams \<Rightarrow> world \<Rightarrow> string outcome \<times> world" where
  "projectURL params w =
     (if URL params \<noteq> [] then (Return (URL params), w)
      else (case promptURL w of
              (Failure err, w1) \<Rightarrow> (Failure (Wrap err ''url prompt''), w1)
            | (Return url, w1) \<Rightarrow> (Return url, w1)
            | (Panic, w1) \<Rightarrow> (Panic, w1)))"

text \<open>The second \<open>switch\<close> of \<open>Configure\<close> (the credential), given the user identity read before it.\<close>

definition credential :: "BridgeParams \<Rightarrow> world \<Rightarrow> Credential outcome \<times> world" where
  "credential params w =
     (let userId = (case userIdentity w of UserIdentity u \<Rightarrow> u | _ \<Rightarrow> DefaultUserId w) in
      if CredPrefix params \<noteq> [] then
        (case auth_LoadWithPrefix w (CredPrefix params) of
           (None, w1) \<Rightarrow> (Failure ErrLoadCredential, w1)
         | (Some cred, w1) \<Rightarrow>
             (case userIdentity w of
                UserIdentity u \<Rightarrow>
                  if UserId cred \<noteq> u then (Failure ErrCredentialUser, w1) else (Return cred, w1)
              | _ \<Rightarrow> (Return cred, w1)))
      else if TokenRaw params \<noteq> [] then (Return (NewToken w userId (TokenRaw params) target), w)
      else promptTokenOptions userId w)"

text \<open>The end of \<open>Configure\<close>: store the credential unless its identifier is known.\<close>

definition storeToken :: "Credential \<Rightarrow> world \<Rightarrow> error option \<times> world" where
  "storeToken cred w =
     (case auth_IdExist w (ID cred) of
        (True, w1) \<Rightarrow> (None, w1)
      | (False, w1) \<Rightarrow> auth_Store w1 cred)"

definition Configure :: "BridgeParams \<Rightarrow> world \<Rightarrow> Configuration outcome \<times> world" where
  "Configure params0 w0 =
     (let w = emit (warnings params0) w0 in
      if (CredPrefix params0 \<noteq> [] \<or> TokenRaw params0 \<noteq> []) \<and> URL params0 = [] then
        (Failure ErrMissingURL, w)
      else
        let params = withDefaultURL params0 w in
        (case projectURL params w of
           (Panic, w1) \<Rightarrow> (Panic, w1)
         | (Failure err, w1) \<Rightarrow> (Failure err, w1)
         | (Return url, w1) \<Rightarrow>
             if \<not> HasPrefix url (BaseURL params) then (Failure ErrBaseURLMismatch, w1)
             else
               let w2 = emit [GetUserIdentity] w1 in
               if userIdentity w2 = IdentityError then (Failure ErrIdentity, w2)
               else
                 (case credential params w2 of
                    (Panic, w3) \<Rightarrow> (Panic, w3)
                  | (Failure err, w3) \<Rightarrow> (Failure err, w3)
                  | (Return cred, w3) \<Rightarrow>
                      if Kind cred \<noteq> KindToken then (Failure ErrNotAToken, w3)
                      else
                        (case validateProjectURL (BaseURL params) url cred w3 of
                           (Panic, w4) \<Rightarrow> (Panic, w4)
                         | (Failure err, w4) \<Rightarrow> (Failure (Wrap err ''project validation''), w4)
                         | (Return projectID, w4) \<Rightarrow>
                             let conf = [ConfigKeyTarget \<mapsto> target,
                                         keyProjectID \<mapsto> Itoa projectID,
                                         keyGitlabBaseUrl \<mapsto> BaseURL params]
                             in (case ValidateConfig conf of
                                   Some err \<Rightarrow> (Failure err, w4)
                                 | None \<Rightarrow>
                                     (case storeToken cred w4 of
                                        (Some err, w5) \<Rightarrow> (Failure err, w5)
                                      | (None, w5) \<Rightarrow> (Return conf, w5)))))))"

section \<open>The specification's wording, and a concrete setting\<close>

text \<open>The paths of the remotes whose reference normalises, in the order of the remotes.\<close>

definition normalizedPaths :: "(string \<times> string) list \<Rightarrow> string list" where
  "normalizedPaths rs =
     concat (map (\<lambda>(name, u). case getProjectPath u of Return path \<Rightarrow> [path] | _ \<Rightarrow> []) rs)"

text \<open>The host a reference names: the \<open>Host\<close> of the URL that \<open>getProjectPath\<close> parses.\<close>

definition referenceHost :: "string \<Rightarrow> string option" where
  "referenceHost u =
     map_option Host (Parse (Replace1 (TrimSuffix u ''.git'') ''git@'' ''https://''))"

text \<open>
  Remote discovery as the specification words it (4.2): normalise each remote, drop
  those that fail, keep only those on the target service's host, prefix each surviving
  path with that host.
\<close>

definition discover_spec :: "(string \<times> string) list \<Rightarrow> string list" where
  "discover_spec rs =
     map (\<lambda>path. ''gitlab.com'' @ path)
       (normalizedPaths (filter (\<lambda>(name, u). referenceHost u = Some ''gitlab.com'') rs))"

text \<open>A call has succeeded when it returned a value.\<close>

definition returned :: "'a outcome \<times> world \<Rightarrow> bool" where
  "returned r = (case fst r of Return _ \<Rightarrow> True | _ \<Rightarrow> False)"

text \<open>
  A repository of user \<open>alice\<close> with two stored tokens and one remote; the service knows
  the project \<open>group/project\<close> under the number 42.
\<close>

definition credA :: Credential where
  "credA = \<lparr>Kind = KindToken, ID = ''a1f3'', UserId = ''alice'', Target = ''gitlab'',
     Value = ''stored-secret-A'', CreateTime = 3\<rparr>"

definition credB :: Credential where
  "credB = \<lparr>Kind = KindToken, ID = ''b2e4'', UserId = ''alice'', Target = ''gitlab'',
     Value = ''stored-secret-B'', CreateTime = 5\<rparr>"

definition exampleWorld :: world where
  "exampleWorld =
     \<lparr>stdin = [], trace = [], credentials = [credB, credA],
      userIdentity = UserIdentity ''alice'',
      remotes = Some [(''origin'', ''https://gitlab.com/group/project.git'')],
      now = 7, listFails = False, storeFails = False,
      buildClientFails = (\<lambda>baseURL. False),
      gitlabProject = (\<lambda>baseURL secret path. if path = ''group/project'' then Some 42 else None),
      tokenID = (\<lambda>userId tgt secret. userId @ tgt @ secret),
      defaultBaseURL = ''https://gitlab.com/'', DefaultUserId = ''default-user''\<rparr>"

definition exampleParams :: BridgeParams where
  "exampleParams =
     \<lparr>Owner = [], Project = [], URL = ''https://gitlab.example.com/group/project'',
      BaseURL = ''https://gitlab.example.com'', CredPrefix = [], TokenRaw = []\<rparr>"

text \<open>The user the credential is resolved for: the identity of the repository, or the placeholder.\<close>

definition currentUserId :: "world \<Rightarrow> string" where
  "currentUserId w = (case userIdentity w of UserIdentity u \<Rightarrow> u | _ \<Rightarrow> DefaultUserId w)"



text \<open>The tokens the selection menu lists for a user, in the order of the menu.\<close>

definition storedTokens :: "world \<Rightarrow> string \<Rightarrow> Credential list" where
  "storedTokens w userId =
     sort_key ID (filter (\<lambda>c. UserId c = userId \<and> Target c = target \<and> Kind c = KindToken) (credentials w))"

text \<open>The world once the menu has been shown and one line has been read, \<open>ls\<close> being the lines left.\<close>

definition afterSelection :: "world \<Rightarrow> string \<Rightarrow> string list \<Rightarrow> world" where
  "afterSelection w userId ls =
     emit ([AuthList] @ tokenMenu (storedTokens w userId) @ [ReadStdin, Println []]) (w\<lparr>stdin := ls\<rparr>)"

text \<open>
  The flow reaches its credential switch when a project URL was supplied, the URL starts
  with the base URL and the user identity could be read.
\<close>

definition reachesCredential :: "BridgeParams \<Rightarrow> world \<Rightarrow> bool" where
  "reachesCredential params w \<longleftrightarrow>
     URL params \<noteq> [] \<and> HasPrefix (URL params) (BaseURL params) \<and> userIdentity w \<noteq> IdentityError"

text \<open>The world at the credential switch: the warnings are printed and the identity is read.\<close>

definition atCredential :: "BridgeParams \<Rightarrow> world \<Rightarrow> world" where
  "atCredential params w = emit (warnings params @ [GetUserIdentity]) w"

text \<open>A loaded credential passes the user check: there is no identity, or it is the owner's.\<close>

definition userMatches :: "world \<Rightarrow> Credential \<Rightarrow> bool" where
  "userMatches w cred = (case userIdentity w of UserIdentity u \<Rightarrow> UserId cred = u | _ \<Rightarrow> True)"

text \<open>The mapping \<open>Configure\<close> assembles for a project number.\<close>

definition configurationOf :: "BridgeParams \<Rightarrow> int \<Rightarrow> Configuration" where
  "configurationOf params projectID =
     [ConfigKeyTarget \<mapsto> target, keyProjectID \<mapsto> Itoa projectID, keyGitlabBaseUrl \<mapsto> BaseURL params]"

section \<open>Reference normalisation and remote discovery\<close>

text \<open>
  C10. When the cleaned reference parses as a URL whose path is empty, \<open>getProjectPath\<close>
  does not return the bad-project-URL error: the slice \<open>Path[1:]\<close> panics. The reference
  \<open>https://gitlab.com\<close> is such an input.
\<close>

theorem getProjectPath_empty_path_panics:
  "Parse (Replace1 (TrimSuffix projectUrl ''.git'') ''git@'' ''https://'') = Some objectUrl
   \<Longrightarrow> Path objectUrl = []
   \<Longrightarrow> getProjectPath projectUrl = Panic \<and> getProjectPath projectUrl \<noteq> Failure ErrBadProjectURL"
  by (simp add: getProjectPath_def)

theorem getProjectPath_empty_path_panics_witness:
  "Parse (Replace1 (TrimSuffix ''https://gitlab.com'' ''.git'') ''git@'' ''https://'')
     = Some (emptyURL\<lparr>Scheme := ''https'', Host := ''gitlab.com''\<rparr>)
   \<and> Path (emptyURL\<lparr>Scheme := ''https'', Host := ''gitlab.com''\<rparr>) = []
   \<and> getProjectPath ''https://gitlab.com'' = Panic
   \<and> getProjectPath ''https://gitlab.com'' \<noteq> Failure ErrBadProjectURL"
proof -
  have p: "Parse (Replace1 (TrimSuffix ''https://gitlab.com'' ''.git'') ''git@'' ''https://'')
     = Some (emptyURL\<lparr>Scheme := ''https'', Host := ''gitlab.com''\<rparr>)"
    by code_simp
  have e: "Path (emptyURL\<lparr>Scheme := ''https'', Host := ''gitlab.com''\<rparr>) = []"
    by (simp add: emptyURL_def)
  from getProjectPath_empty_path_panics [OF p e] p e show ?thesis by blast
qed

text \<open>
  C2. The SSH reference \<open>git@gitlab.example.com:group/project.git\<close> does not normalise to
  \<open>group/project\<close>: after the rewriting of \<open>git@\<close> the text between the colon and the
  slash stands where a port belongs, the parse fails, and the result is the
  bad-project-URL error. The HTTPS reference to the same project yields the path.
\<close>

theorem getProjectPath_ssh_reference_rejected:
  "getProjectPath ''git@gitlab.example.com:group/project.git'' = Failure ErrBadProjectURL
   \<and> getProjectPath ''https://gitlab.example.com/group/project.git'' = Return ''group/project''"
  by code_simp

text \<open>
  C3. Remote discovery does not keep to the host of the target service. A remote on
  \<open>github.com\<close> is not filtered out: where the specification's discovery yields no
  candidate, the code yields one, the foreign path behind the literal \<open>gitlab.com\<close>.
  The literal is glued to the path with no separator, so a remote that is on
  \<open>gitlab.com\<close> does not yield its own host and path either.
\<close>

theorem discovery_keeps_other_hosts:
  "getValidGitlabRemoteURLs [(''origin'', ''https://github.com/foo/bar.git'')] = Return [''gitlab.comfoo/bar'']
   \<and> referenceHost ''https://github.com/foo/bar.git'' = Some ''github.com''
   \<and> discover_spec [(''origin'', ''https://github.com/foo/bar.git'')] = []
   \<and> getValidGitlabRemoteURLs [(''origin'', ''https://gitlab.com/group/project.git'')]
       = Return [''gitlab.comgroup/project'']"
  by code_simp

section \<open>The token prompt\<close>





section \<open>The selection of a stored token\<close>

lemma promptTokenOptions_step:
  assumes "\<not> listFails w" and "storedTokens w userId \<noteq> []" and "stdin w = l # ls"
  shows "promptTokenOptions userId w =
     (case Atoi (TrimSpace (l @ [CHR 0x0A])) of
        None \<Rightarrow> promptTokenOptions userId (emit [Println ''invalid input''] (afterSelection w userId ls))
      | Some k \<Rightarrow>
          if k < 1 \<or> int (length (storedTokens w userId)) + 1 < k
          then promptTokenOptions userId (emit [Println ''invalid input''] (afterSelection w userId ls))
          else if k = 1 then tokenEntry userId (afterSelection w userId ls)
          else (Return (storedTokens w userId ! nat (k - 2)), afterSelection w userId ls))"
proof -
  from assms(2) have ne:
    "filter (\<lambda>c. UserId c = userId \<and> Target c = target \<and> Kind c = KindToken) (credentials w) \<noteq> []"
    by (auto simp: storedTokens_def)
  show ?thesis
    using assms(1,3) ne
    by (subst promptTokenOptions.simps)
       (simp add: auth_List_def ReadString_def emit_def Let_def afterSelection_def storedTokens_def
          split: option.splits)
qed

text \<open>
  C8. With at least one stored token of the user listed (N of them, identifiers
  distinct as in a keyed store), the menu lists them by identifier, ascending. A line
  that is not a number, or a number outside 1..N+1, is answered with the message of an
  invalid input and the menu again; 1 leads to the token prompt; k in 2..N+1 returns the
  listed token at position k - 2. The inputs \<open>abc\<close>, \<open>99\<close>, \<open>2\<close> against two stored tokens
  are the witness: two rejections, then the first listed token.
\<close>

theorem promptTokenOptions_selection:
  assumes "\<not> listFails w" and "distinct (map ID (credentials w))"
    and "storedTokens w userId \<noteq> []" and "stdin w = l # ls"
  shows "sorted (map ID (storedTokens w userId)) \<and> distinct (map ID (storedTokens w userId))
     \<and> set (storedTokens w userId)
         = {c \<in> set (credentials w). UserId c = userId \<and> Target c = target \<and> Kind c = KindToken}
     \<and> ((Atoi (TrimSpace (l @ [CHR 0x0A])) = None
          \<or> (\<exists>k. Atoi (TrimSpace (l @ [CHR 0x0A])) = Some k
                 \<and> (k < 1 \<or> int (length (storedTokens w userId)) + 1 < k)))
         \<longrightarrow> promptTokenOptions userId w
               = promptTokenOptions userId (emit [Println ''invalid input''] (afterSelection w userId ls)))
     \<and> (Atoi (TrimSpace (l @ [CHR 0x0A])) = Some 1
         \<longrightarrow> promptTokenOptions userId w = tokenEntry userId (afterSelection w userId ls))
     \<and> (\<forall>k. Atoi (TrimSpace (l @ [CHR 0x0A])) = Some k \<and> 2 \<le> k
              \<and> k \<le> int (length (storedTokens w userId)) + 1
         \<longrightarrow> promptTokenOptions userId w
               = (Return (storedTokens w userId ! nat (k - 2)), afterSelection w userId ls))"
proof -
  from assms(2) have "distinct (map ID
      (filter (\<lambda>c. UserId c = userId \<and> Target c = target \<and> Kind c = KindToken) (credentials w)))"
    by (rule distinct_map_filter)
  then have d: "distinct (map ID (storedTokens w userId))"
    by (simp add: storedTokens_def distinct_map)
  note step = promptTokenOptions_step [OF assms(1,3,4)]
  show ?thesis
    using d by (auto simp: step storedTokens_def)
qed

theorem promptTokenOptions_selection_witness:
  "\<not> listFails (exampleWorld\<lparr>stdin := [''abc'', ''99'', ''2'']\<rparr>)
   \<and> distinct (map ID (credentials (exampleWorld\<lparr>stdin := [''abc'', ''99'', ''2'']\<rparr>)))
   \<and> storedTokens (exampleWorld\<lparr>stdin := [''abc'', ''99'', ''2'']\<rparr>) ''alice'' = [credA, credB]
   \<and> credentials exampleWorld = [credB, credA]
   \<and> fst (promptTokenOptions ''alice'' (exampleWorld\<lparr>stdin := [''abc'', ''99'', ''2'']\<rparr>)) = Return credA
   \<and> stdin (snd (promptTokenOptions ''alice'' (exampleWorld\<lparr>stdin := [''abc'', ''99'', ''2'']\<rparr>))) = []
   \<and> filter (\<lambda>e. e = Println ''invalid input'')
        (trace (snd (promptTokenOptions ''alice'' (exampleWorld\<lparr>stdin := [''abc'', ''99'', ''2'']\<rparr>))))
       = [Println ''invalid input'', Println ''invalid input'']"
proof -
  let ?W0 = "exampleWorld\<lparr>stdin := [''abc'', ''99'', ''2'']\<rparr>"
  let ?W1 = "emit [Println ''invalid input''] (afterSelection ?W0 ''alice'' [''99'', ''2''])"
  let ?W2 = "emit [Println ''invalid input''] (afterSelection ?W1 ''alice'' [''2''])"
  let ?W3 = "afterSelection ?W2 ''alice'' []"
  have creds: "credentials exampleWorld = [credB, credA]" by (simp add: exampleWorld_def)
  have h0: "\<not> listFails ?W0" "distinct (map ID (credentials ?W0))"
    "storedTokens ?W0 ''alice'' \<noteq> []" "stdin ?W0 = ''abc'' # [''99'', ''2'']"
    by code_simp+
  have h1: "\<not> listFails ?W1" "distinct (map ID (credentials ?W1))"
    "storedTokens ?W1 ''alice'' \<noteq> []" "stdin ?W1 = ''99'' # [''2'']"
    by code_simp+
  have h2: "\<not> listFails ?W2" "distinct (map ID (credentials ?W2))"
    "storedTokens ?W2 ''alice'' \<noteq> []" "stdin ?W2 = ''2'' # []"
    by code_simp+
  have a0: "Atoi (TrimSpace (''abc'' @ [CHR 0x0A])) = None" by code_simp
  have a1: "Atoi (TrimSpace (''99'' @ [CHR 0x0A])) = Some 99" by code_simp
  have a2: "Atoi (TrimSpace (''2'' @ [CHR 0x0A])) = Some 2" by code_simp
  have n1: "length (storedTokens ?W1 ''alice'') = 2" by code_simp
  have n2: "length (storedTokens ?W2 ''alice'') = 2" by code_simp
  have s0: "storedTokens ?W0 ''alice'' = [credA, credB]" by code_simp
  have s2: "storedTokens ?W2 ''alice'' ! nat (2 - 2) = credA" by code_simp
  have step0: "promptTokenOptions ''alice'' ?W0 = promptTokenOptions ''alice'' ?W1"
    using promptTokenOptions_selection [OF h0] a0 by simp
  have step1: "promptTokenOptions ''alice'' ?W1 = promptTokenOptions ''alice'' ?W2"
    using promptTokenOptions_selection [OF h1] a1 n1 by simp
  have step2: "promptTokenOptions ''alice'' ?W2 = (Return credA, ?W3)"
    using promptTokenOptions_selection [OF h2] a2 n2 s2 by simp
  have res: "promptTokenOptions ''alice'' ?W0 = (Return credA, ?W3)"
    using step0 step1 step2 by simp
  have st: "stdin ?W3 = []" by (simp add: afterSelection_def emit_def)
  have tr: "filter (\<lambda>e. e = Println ''invalid input'') (trace ?W3)
       = [Println ''invalid input'', Println ''invalid input'']"
    by code_simp
  from h0(1,2) s0 creds res st tr show ?thesis by simp
qed

section \<open>The Configure flow\<close>

lemma keys_distinct:
  "ConfigKeyTarget \<noteq> keyProjectID" "ConfigKeyTarget \<noteq> keyGitlabBaseUrl" "keyProjectID \<noteq> keyGitlabBaseUrl"
  by (simp_all add: ConfigKeyTarget_def keyProjectID_def keyGitlabBaseUrl_def)

lemma example_run:
  "fst (Configure (exampleParams\<lparr>TokenRaw := ''abcdefghij0123456789''\<rparr>) exampleWorld)
     = Return [ConfigKeyTarget \<mapsto> target, keyProjectID \<mapsto> ''42'',
               keyGitlabBaseUrl \<mapsto> ''https://gitlab.example.com'']"
proof -
  have g: "getProjectPath ''https://gitlab.example.com/group/project'' = Return ''group/project''"
    by code_simp
  have i: "Itoa 42 = ''42''" by code_simp
  have v: "ValidateConfig [ConfigKeyTarget \<mapsto> target, keyProjectID \<mapsto> ''42'',
               keyGitlabBaseUrl \<mapsto> ''https://gitlab.example.com''] = None"
    by (simp add: ValidateConfig_def ConfigKeyTarget_def keyProjectID_def keyGitlabBaseUrl_def)
  show ?thesis
    by (simp add: Configure_def warnings_def withDefaultURL_def projectURL_def credential_def
          validateProjectURL_def storeToken_def auth_IdExist_def auth_Store_def NewToken_def
          emit_def Let_def exampleParams_def exampleWorld_def HasPrefix_def g i v credA_def credB_def)
qed

text \<open>
  C7. A call that names a credential (by prefix or by raw token) and no project URL
  fails at once with the missing-URL error; all it has done by then is print the
  warnings about ineffective parameters: nothing was read, looked up, stored or sent.
\<close>

theorem Configure_requires_url_for_credential:
  "CredPrefix params \<noteq> [] \<or> TokenRaw params \<noteq> [] \<Longrightarrow> URL params = []
   \<Longrightarrow> Configure params w = (Failure ErrMissingURL, w\<lparr>trace := trace w @ warnings params\<rparr>)
       \<and> set (warnings params)
           \<subseteq> {Println ''warning: --project is ineffective for a gitlab bridge'',
               Println ''warning: --owner is ineffective for a gitlab bridge''}"
  by (auto simp: Configure_def emit_def warnings_def)

theorem Configure_requires_url_for_credential_witness:
  "TokenRaw (exampleParams\<lparr>URL := [], TokenRaw := ''abcdefghij0123456789''\<rparr>) \<noteq> []
   \<and> URL (exampleParams\<lparr>URL := [], TokenRaw := ''abcdefghij0123456789''\<rparr>) = []
   \<and> Configure (exampleParams\<lparr>URL := [], TokenRaw := ''abcdefghij0123456789''\<rparr>) exampleWorld
       = (Failure ErrMissingURL, exampleWorld)"
proof -
  have h1: "CredPrefix (exampleParams\<lparr>URL := [], TokenRaw := ''abcdefghij0123456789''\<rparr>) \<noteq> []
      \<or> TokenRaw (exampleParams\<lparr>URL := [], TokenRaw := ''abcdefghij0123456789''\<rparr>) \<noteq> []"
    by simp
  have h2: "URL (exampleParams\<lparr>URL := [], TokenRaw := ''abcdefghij0123456789''\<rparr>) = []"
    by simp
  have w: "warnings (exampleParams\<lparr>URL := [], TokenRaw := ''abcdefghij0123456789''\<rparr>) = []"
    by (simp add: warnings_def exampleParams_def)
  from Configure_requires_url_for_credential [OF h1 h2, of exampleWorld] h2 w
  show ?thesis by simp
qed

text \<open>
  C1. Without an explicit project URL (and without a credential parameter) the flow
  does not resolve the URL interactively: \<open>params.URL\<close> is first set to the default base
  URL, so the switch takes the branch of an explicit URL and the call runs exactly as if
  the default base URL had been passed as the project URL. With the remote of the
  example and an operator ready to pick it, nothing is discovered and nothing is read.
\<close>

theorem Configure_default_url_skips_prompt:
  "URL params = [] \<Longrightarrow> CredPrefix params = [] \<Longrightarrow> TokenRaw params = [] \<Longrightarrow> defaultBaseURL w \<noteq> []
   \<Longrightarrow> projectURL (withDefaultURL params w) w = (Return (defaultBaseURL w), w)
       \<and> Configure params w = Configure (params\<lparr>URL := defaultBaseURL w\<rparr>) w"
  by (simp add: Configure_def warnings_def withDefaultURL_def projectURL_def Let_def emit_def
        cong: prod.case_cong outcome.case_cong option.case_cong if_cong)

theorem Configure_default_url_skips_prompt_witness:
  "URL (exampleParams\<lparr>URL := []\<rparr>) = [] \<and> CredPrefix (exampleParams\<lparr>URL := []\<rparr>) = []
   \<and> TokenRaw (exampleParams\<lparr>URL := []\<rparr>) = []
   \<and> defaultBaseURL (exampleWorld\<lparr>stdin := [''1'']\<rparr>) \<noteq> []
   \<and> remotes (exampleWorld\<lparr>stdin := [''1'']\<rparr>) = Some [(''origin'', ''https://gitlab.com/group/project.git'')]
   \<and> Configure (exampleParams\<lparr>URL := []\<rparr>) (exampleWorld\<lparr>stdin := [''1'']\<rparr>)
       = (Failure ErrBaseURLMismatch, exampleWorld\<lparr>stdin := [''1'']\<rparr>)"
proof -
  have h: "URL (exampleParams\<lparr>URL := []\<rparr>) = []" "CredPrefix (exampleParams\<lparr>URL := []\<rparr>) = []"
    "TokenRaw (exampleParams\<lparr>URL := []\<rparr>) = []"
    "defaultBaseURL (exampleWorld\<lparr>stdin := [''1'']\<rparr>) \<noteq> []"
    by (simp_all add: exampleParams_def exampleWorld_def)
  have r: "remotes (exampleWorld\<lparr>stdin := [''1'']\<rparr>) = Some [(''origin'', ''https://gitlab.com/group/project.git'')]"
    by (simp add: exampleWorld_def)
  have c: "Configure (exampleParams\<lparr>URL := defaultBaseURL (exampleWorld\<lparr>stdin := [''1'']\<rparr>)\<rparr>) (exampleWorld\<lparr>stdin := [''1'']\<rparr>)
       = (Failure ErrBaseURLMismatch, exampleWorld\<lparr>stdin := [''1'']\<rparr>)"
    by (simp add: Configure_def warnings_def withDefaultURL_def projectURL_def Let_def emit_def
          exampleParams_def exampleWorld_def HasPrefix_def)
  from Configure_default_url_skips_prompt [OF h] h r c show ?thesis by simp
qed

text \<open>
  C4, as stated, fails: a call with a credential prefix, a raw token and a project URL
  does not fail. It succeeds, and its trace shows the lookup by prefix.
\<close>

theorem Configure_both_strategies_succeeds:
  "returned (Configure (exampleParams\<lparr>CredPrefix := ''a1'', TokenRaw := ''abcdefghij0123456789''\<rparr>) exampleWorld)
   \<and> trace (snd (Configure (exampleParams\<lparr>CredPrefix := ''a1'', TokenRaw := ''abcdefghij0123456789''\<rparr>) exampleWorld))
     = [GetUserIdentity, AuthLoadWithPrefix ''a1'',
        GetProject ''https://gitlab.example.com'' ''group/project'', AuthIdExist ''a1f3'']"
  by code_simp

lemma ValidateConfig_configurationOf: "ValidateConfig (configurationOf params projectID) = None"
  by (simp add: ValidateConfig_def configurationOf_def ConfigKeyTarget_def keyProjectID_def keyGitlabBaseUrl_def)

lemma Configure_at_credential:
  assumes "reachesCredential params w"
  shows "Configure params w =
     (case credential params (atCredential params w) of
        (Panic, w3) \<Rightarrow> (Panic, w3)
      | (Failure err, w3) \<Rightarrow> (Failure err, w3)
      | (Return cred, w3) \<Rightarrow>
          if Kind cred \<noteq> KindToken then (Failure ErrNotAToken, w3)
          else
            (case validateProjectURL (BaseURL params) (URL params) cred w3 of
               (Panic, w4) \<Rightarrow> (Panic, w4)
             | (Failure err, w4) \<Rightarrow> (Failure (Wrap err ''project validation''), w4)
             | (Return projectID, w4) \<Rightarrow>
                 (case storeToken cred w4 of
                    (Some err, w5) \<Rightarrow> (Failure err, w5)
                  | (None, w5) \<Rightarrow> (Return (configurationOf params projectID), w5))))"
  using assms
  by (simp add: Configure_def reachesCredential_def atCredential_def withDefaultURL_def projectURL_def
        Let_def emit_def ValidateConfig_configurationOf [unfolded configurationOf_def] configurationOf_def
        cong: prod.case_cong outcome.case_cong option.case_cong if_cong)

lemma by_prefix_run:
  assumes "reachesCredential params w" and "CredPrefix params \<noteq> []"
    and "filter (\<lambda>c. HasPrefix (ID c) (CredPrefix params)) (credentials w) = [cred]"
    and "userMatches w cred" and "Kind cred = KindToken"
    and "getProjectPath (URL params) = Return path" and "\<not> buildClientFails w (BaseURL params)"
    and "gitlabProject w (BaseURL params) (Value cred) path = Some projectID"
  shows "Configure params w =
           (Return (configurationOf params projectID),
            emit (warnings params @ [GetUserIdentity, AuthLoadWithPrefix (CredPrefix params),
                    GetProject (BaseURL params) path, AuthIdExist (ID cred)]) w)"
proof -
  from assms(3) have "cred \<in> set (filter (\<lambda>c. HasPrefix (ID c) (CredPrefix params)) (credentials w))"
    by simp
  then have ex: "list_ex (\<lambda>c. ID c = ID cred) (credentials w)"
    by (auto simp: list_ex_iff)
  show ?thesis
    using assms(2-8) ex
    by (simp add: Configure_at_credential [OF assms(1)] atCredential_def credential_def
          auth_LoadWithPrefix_def userMatches_def validateProjectURL_def storeToken_def
          auth_IdExist_def emit_def Let_def split: identity.splits)
qed

lemma by_prefix_only_if:
  assumes "CredPrefix params \<noteq> []" and "returned (Configure params w)"
  shows "\<exists>cred. filter (\<lambda>c. HasPrefix (ID c) (CredPrefix params)) (credentials w) = [cred]
           \<and> userMatches w cred \<and> Kind cred = KindToken"
proof -
  from assms have r: "reachesCredential params w"
    by (auto simp: Configure_def returned_def reachesCredential_def withDefaultURL_def projectURL_def
          Let_def emit_def split: if_splits prod.splits outcome.splits)
  from assms(2) show ?thesis
    using assms(1)
    by (auto simp: Configure_at_credential [OF r] returned_def atCredential_def credential_def
          auth_LoadWithPrefix_def userMatches_def emit_def Let_def
          split: list.splits identity.splits if_splits prod.splits outcome.splits)
qed

lemma by_raw_token_run:
  assumes "reachesCredential params w" and "CredPrefix params = []" and "TokenRaw params \<noteq> []"
    and "getProjectPath (URL params) = Return path" and "\<not> buildClientFails w (BaseURL params)"
    and "gitlabProject w (BaseURL params) (TokenRaw params) path = Some projectID"
    and "\<not> storeFails w"
  shows "fst (Configure params w) = Return (configurationOf params projectID)
     \<and> stdin (snd (Configure params w)) = stdin w
     \<and> trace (snd (Configure params w)) =
         trace w @ warnings params
           @ [GetUserIdentity, GetProject (BaseURL params) path,
              AuthIdExist (tokenID w (currentUserId w) target (TokenRaw params))]
           @ (if list_ex (\<lambda>c. ID c = tokenID w (currentUserId w) target (TokenRaw params)) (credentials w)
              then []
              else [AuthStore \<lparr>Kind = KindToken, ID = tokenID w (currentUserId w) target (TokenRaw params),
                      UserId = currentUserId w, Target = target, Value = TokenRaw params,
                      CreateTime = now w\<rparr>])"
  using assms(2-7)
  by (simp add: Configure_at_credential [OF assms(1)] atCredential_def credential_def NewToken_def
        validateProjectURL_def storeToken_def auth_IdExist_def auth_Store_def currentUserId_def emit_def
        Let_def cong: identity.case_cong)

lemma interactive_run:
  assumes "reachesCredential params w" and "CredPrefix params = []" and "TokenRaw params = []"
  shows "credential params (atCredential params w)
           = promptTokenOptions (currentUserId w) (atCredential params w)"
  using assms(2,3)
  by (simp add: credential_def atCredential_def currentUserId_def emit_def Let_def cong: identity.case_cong)


text \<open>
  C4, amended. Supplying more than one strategy is not an error; the strategy is chosen
  in a fixed order. With a credential prefix, the raw token plays no part whatever it
  is; the flow succeeds only if exactly one stored credential has an identifier starting
  with the prefix, and, once the credential switch is reached, it succeeds with that
  credential (owned by the current user, a token, the project found with its secret),
  having looked the credential up by the prefix and stored nothing. Without a prefix
  and with a raw token, the project is looked up with the raw token, nothing is read
  from the operator, and the new token's identifier is checked against the store.
  With neither, the credential is the outcome of the interactive selection: its failure
  is the flow's failure, and with a stored token it returns, under whose secret the
  project is found, the flow succeeds. The second and third case are stated for a flow
  that has reached the credential switch and a lookup that succeeds, the second also
  for a store that accepts an insert.
\<close>

theorem Configure_strategy_order:
  "(CredPrefix params \<noteq> [] \<longrightarrow> Configure (params\<lparr>TokenRaw := t\<rparr>) w = Configure params w)
   \<and> (CredPrefix params \<noteq> [] \<and> returned (Configure params w) \<longrightarrow>
        (\<exists>c. filter (\<lambda>c. HasPrefix (ID c) (CredPrefix params)) (credentials w) = [c]
              \<and> userMatches w c \<and> Kind c = KindToken))
   \<and> (reachesCredential params w \<and> CredPrefix params \<noteq> []
        \<and> filter (\<lambda>c. HasPrefix (ID c) (CredPrefix params)) (credentials w) = [cred]
        \<and> userMatches w cred \<and> Kind cred = KindToken
        \<and> getProjectPath (URL params) = Return path \<and> \<not> buildClientFails w (BaseURL params)
        \<and> gitlabProject w (BaseURL params) (Value cred) path = Some projectID
      \<longrightarrow> Configure params w =
           (Return (configurationOf params projectID),
            emit (warnings params @ [GetUserIdentity, AuthLoadWithPrefix (CredPrefix params),
                    GetProject (BaseURL params) path, AuthIdExist (ID cred)]) w))
   \<and> (reachesCredential params w \<and> CredPrefix params = [] \<and> TokenRaw params \<noteq> []
        \<and> getProjectPath (URL params) = Return path \<and> \<not> buildClientFails w (BaseURL params)
        \<and> gitlabProject w (BaseURL params) (TokenRaw params) path = Some projectID
        \<and> \<not> storeFails w
      \<longrightarrow> fst (Configure params w) = Return (configurationOf params projectID)
          \<and> stdin (snd (Configure params w)) = stdin w
          \<and> trace (snd (Configure params w)) =
              trace w @ warnings params
                @ [GetUserIdentity, GetProject (BaseURL params) path,
                   AuthIdExist (tokenID w (currentUserId w) target (TokenRaw params))]
                @ (if list_ex (\<lambda>c. ID c = tokenID w (currentUserId w) target (TokenRaw params)) (credentials w)
                   then []
                   else [AuthStore \<lparr>Kind = KindToken, ID = tokenID w (currentUserId w) target (TokenRaw params),
                           UserId = currentUserId w, Target = target, Value = TokenRaw params,
                           CreateTime = now w\<rparr>]))
   \<and> (reachesCredential params w \<and> CredPrefix params = [] \<and> TokenRaw params = []
        \<and> fst (promptTokenOptions (currentUserId w) (atCredential params w)) = Failure err
      \<longrightarrow> Configure params w
            = (Failure err, snd (promptTokenOptions (currentUserId w) (atCredential params w))))
   \<and> (reachesCredential params w \<and> CredPrefix params = [] \<and> TokenRaw params = []
        \<and> fst (promptTokenOptions (currentUserId w) (atCredential params w)) = Return cred
        \<and> Kind cred = KindToken \<and> getProjectPath (URL params) = Return path
        \<and> \<not> buildClientFails (snd (promptTokenOptions (currentUserId w) (atCredential params w))) (BaseURL params)
        \<and> gitlabProject (snd (promptTokenOptions (currentUserId w) (atCredential params w)))
              (BaseURL params) (Value cred) path = Some projectID
        \<and> list_ex (\<lambda>c. ID c = ID cred)
              (credentials (snd (promptTokenOptions (currentUserId w) (atCredential params w))))
      \<longrightarrow> Configure params w =
           (Return (configurationOf params projectID),
            emit [GetProject (BaseURL params) path, AuthIdExist (ID cred)]
              (snd (promptTokenOptions (currentUserId w) (atCredential params w)))))"
proof (intro conjI impI)
  assume "CredPrefix params \<noteq> []"
  then show "Configure (params\<lparr>TokenRaw := t\<rparr>) w = Configure params w"
    by (simp add: Configure_def warnings_def withDefaultURL_def projectURL_def credential_def Let_def
          cong: prod.case_cong outcome.case_cong option.case_cong if_cong)
next
  assume "CredPrefix params \<noteq> [] \<and> returned (Configure params w)"
  then show "\<exists>c. filter (\<lambda>c. HasPrefix (ID c) (CredPrefix params)) (credentials w) = [c]
              \<and> userMatches w c \<and> Kind c = KindToken"
    using by_prefix_only_if [of params w] by blast
next
  assume "reachesCredential params w \<and> CredPrefix params \<noteq> []
        \<and> filter (\<lambda>c. HasPrefix (ID c) (CredPrefix params)) (credentials w) = [cred]
        \<and> userMatches w cred \<and> Kind cred = KindToken
        \<and> getProjectPath (URL params) = Return path \<and> \<not> buildClientFails w (BaseURL params)
        \<and> gitlabProject w (BaseURL params) (Value cred) path = Some projectID"
  then show "Configure params w =
           (Return (configurationOf params projectID),
            emit (warnings params @ [GetUserIdentity, AuthLoadWithPrefix (CredPrefix params),
                    GetProject (BaseURL params) path, AuthIdExist (ID cred)]) w)"
    using by_prefix_run [of params w cred path projectID] by blast
next
  assume a: "reachesCredential params w \<and> CredPrefix params = [] \<and> TokenRaw params \<noteq> []
        \<and> getProjectPath (URL params) = Return path \<and> \<not> buildClientFails w (BaseURL params)
        \<and> gitlabProject w (BaseURL params) (TokenRaw params) path = Some projectID
        \<and> \<not> storeFails w"
  note r = by_raw_token_run [of params w path projectID]
  from a r show "fst (Configure params w) = Return (configurationOf params projectID)" by blast
  from a r show "stdin (snd (Configure params w)) = stdin w" by blast
  from a r show "trace (snd (Configure params w)) =
              trace w @ warnings params
                @ [GetUserIdentity, GetProject (BaseURL params) path,
                   AuthIdExist (tokenID w (currentUserId w) target (TokenRaw params))]
                @ (if list_ex (\<lambda>c. ID c = tokenID w (currentUserId w) target (TokenRaw params)) (credentials w)
                   then []
                   else [AuthStore \<lparr>Kind = KindToken, ID = tokenID w (currentUserId w) target (TokenRaw params),
                           UserId = currentUserId w, Target = target, Value = TokenRaw params,
                           CreateTime = now w\<rparr>])"
    by blast
next
  let ?r = "promptTokenOptions (currentUserId w) (atCredential params w)"
  assume a: "reachesCredential params w \<and> CredPrefix params = [] \<and> TokenRaw params = []
        \<and> fst ?r = Failure err"
  then have "credential params (atCredential params w) = ?r"
    using interactive_run [of params w] by blast
  with a show "Configure params w = (Failure err, snd ?r)"
    by (cases ?r) (simp add: Configure_at_credential)
next
  let ?r = "promptTokenOptions (currentUserId w) (atCredential params w)"
  assume a: "reachesCredential params w \<and> CredPrefix params = [] \<and> TokenRaw params = []
        \<and> fst ?r = Return cred
        \<and> Kind cred = KindToken \<and> getProjectPath (URL params) = Return path
        \<and> \<not> buildClientFails (snd ?r) (BaseURL params)
        \<and> gitlabProject (snd ?r) (BaseURL params) (Value cred) path = Some projectID
        \<and> list_ex (\<lambda>c. ID c = ID cred) (credentials (snd ?r))"
  then have "credential params (atCredential params w) = ?r"
    using interactive_run [of params w] by blast
  with a show "Configure params w =
           (Return (configurationOf params projectID),
            emit [GetProject (BaseURL params) path, AuthIdExist (ID cred)] (snd ?r))"
    by (cases ?r)
       (simp add: Configure_at_credential validateProjectURL_def storeToken_def auth_IdExist_def emit_def)
qed


theorem Configure_strategy_order_witness:
  "Configure (exampleParams\<lparr>CredPrefix := ''a1'', TokenRaw := ''abcdefghij0123456789''\<rparr>) exampleWorld
     = (Return (configurationOf (exampleParams\<lparr>CredPrefix := ''a1'', TokenRaw := ''abcdefghij0123456789''\<rparr>) 42),
        emit [GetUserIdentity, AuthLoadWithPrefix ''a1'',
              GetProject ''https://gitlab.example.com'' ''group/project'', AuthIdExist ''a1f3''] exampleWorld)
   \<and> Value credA = ''stored-secret-A''
   \<and> fst (Configure (exampleParams\<lparr>TokenRaw := ''abcdefghij0123456789''\<rparr>) exampleWorld)
       = Return (configurationOf (exampleParams\<lparr>TokenRaw := ''abcdefghij0123456789''\<rparr>) 42)
   \<and> trace (snd (Configure (exampleParams\<lparr>TokenRaw := ''abcdefghij0123456789''\<rparr>) exampleWorld))
       = [GetUserIdentity, GetProject ''https://gitlab.example.com'' ''group/project'',
          AuthIdExist ''alicegitlababcdefghij0123456789'',
          AuthStore \<lparr>Kind = KindToken, ID = ''alicegitlababcdefghij0123456789'', UserId = ''alice'',
            Target = ''gitlab'', Value = ''abcdefghij0123456789'', CreateTime = 7\<rparr>]
   \<and> fst (promptTokenOptions ''alice'' (atCredential exampleParams (exampleWorld\<lparr>stdin := [''2'']\<rparr>)))
       = Return credA
   \<and> fst (Configure exampleParams (exampleWorld\<lparr>stdin := [''2'']\<rparr>))
       = Return (configurationOf exampleParams 42)
   \<and> fst (Configure exampleParams exampleWorld) = Failure ErrReadStdin"
proof -
  let ?P2 = "exampleParams\<lparr>CredPrefix := ''a1'', TokenRaw := ''abcdefghij0123456789''\<rparr>"
  let ?P4 = "exampleParams\<lparr>TokenRaw := ''abcdefghij0123456789''\<rparr>"
  let ?W5 = "exampleWorld\<lparr>stdin := [''2'']\<rparr>"
  have g: "getProjectPath ''https://gitlab.example.com/group/project'' = Return ''group/project''"
    by code_simp
  have url: "URL ?P2 = ''https://gitlab.example.com/group/project''"
    "URL ?P4 = ''https://gitlab.example.com/group/project''"
    "URL exampleParams = ''https://gitlab.example.com/group/project''"
    "BaseURL ?P2 = ''https://gitlab.example.com''" "BaseURL ?P4 = ''https://gitlab.example.com''"
    "BaseURL exampleParams = ''https://gitlab.example.com''"
    "CredPrefix ?P2 = ''a1''" "CredPrefix ?P4 = []" "CredPrefix exampleParams = []"
    "TokenRaw ?P4 = ''abcdefghij0123456789''" "TokenRaw exampleParams = []"
    "warnings ?P2 = []" "warnings ?P4 = []" "warnings exampleParams = []"
    by (simp_all add: exampleParams_def warnings_def)
  have reach: "reachesCredential ?P2 exampleWorld" "reachesCredential ?P4 exampleWorld"
    "reachesCredential exampleParams ?W5" "reachesCredential exampleParams exampleWorld"
    by code_simp+
  have user: "currentUserId exampleWorld = ''alice''" "currentUserId ?W5 = ''alice''"
    by (simp_all add: currentUserId_def exampleWorld_def)
  have v: "Value credA = ''stored-secret-A''" by (simp add: credA_def)
  have p1: "filter (\<lambda>c. HasPrefix (ID c) (CredPrefix ?P2)) (credentials exampleWorld) = [credA]"
    "userMatches exampleWorld credA" "Kind credA = KindToken"
    "\<not> buildClientFails exampleWorld (BaseURL ?P2)"
    "gitlabProject exampleWorld (BaseURL ?P2) (Value credA) ''group/project'' = Some 42"
    "ID credA = ''a1f3''"
    by code_simp+
  have c2: "CredPrefix ?P2 \<noteq> []" by (simp add: url)
  have g2: "getProjectPath (URL ?P2) = Return ''group/project''" by (simp only: url g)
  from Configure_strategy_order [where params = ?P2 and w = exampleWorld and cred = credA
      and path = "''group/project''" and projectID = 42] reach(1) c2 p1(1-5) g2
  have "Configure ?P2 exampleWorld =
           (Return (configurationOf ?P2 42),
            emit (warnings ?P2 @ [GetUserIdentity, AuthLoadWithPrefix (CredPrefix ?P2),
                    GetProject (BaseURL ?P2) ''group/project'', AuthIdExist (ID credA)]) exampleWorld)"
    by blast
  then have r2: "Configure ?P2 exampleWorld
     = (Return (configurationOf ?P2 42),
        emit [GetUserIdentity, AuthLoadWithPrefix ''a1'',
              GetProject ''https://gitlab.example.com'' ''group/project'', AuthIdExist ''a1f3''] exampleWorld)"
    by (simp only: url p1(6) append_Nil)
  have p4: "\<not> buildClientFails exampleWorld (BaseURL ?P4)"
    "gitlabProject exampleWorld (BaseURL ?P4) (TokenRaw ?P4) ''group/project'' = Some 42"
    "\<not> storeFails exampleWorld"
    by code_simp+
  have c4: "CredPrefix ?P4 = []" "TokenRaw ?P4 \<noteq> []" by (simp_all add: url)
  have g4: "getProjectPath (URL ?P4) = Return ''group/project''" by (simp only: url g)
  from Configure_strategy_order [where params = ?P4 and w = exampleWorld
      and path = "''group/project''" and projectID = 42] reach(2) c4 g4 p4
  have r4: "fst (Configure ?P4 exampleWorld) = Return (configurationOf ?P4 42)"
    and t4: "trace (snd (Configure ?P4 exampleWorld)) =
              trace exampleWorld @ warnings ?P4
                @ [GetUserIdentity, GetProject (BaseURL ?P4) ''group/project'',
                   AuthIdExist (tokenID exampleWorld (currentUserId exampleWorld) target (TokenRaw ?P4))]
                @ (if list_ex (\<lambda>c. ID c = tokenID exampleWorld (currentUserId exampleWorld) target (TokenRaw ?P4))
                        (credentials exampleWorld)
                   then []
                   else [AuthStore \<lparr>Kind = KindToken,
                           ID = tokenID exampleWorld (currentUserId exampleWorld) target (TokenRaw ?P4),
                           UserId = currentUserId exampleWorld, Target = target, Value = TokenRaw ?P4,
                           CreateTime = now exampleWorld\<rparr>])"
    by blast+
  have t4': "trace (snd (Configure ?P4 exampleWorld))
       = [GetUserIdentity, GetProject ''https://gitlab.example.com'' ''group/project'',
          AuthIdExist ''alicegitlababcdefghij0123456789'',
          AuthStore \<lparr>Kind = KindToken, ID = ''alicegitlababcdefghij0123456789'', UserId = ''alice'',
            Target = ''gitlab'', Value = ''abcdefghij0123456789'', CreateTime = 7\<rparr>]"
    unfolding t4 by (simp add: url currentUserId_def exampleWorld_def credA_def credB_def target_def)
  let ?r = "promptTokenOptions (currentUserId ?W5) (atCredential exampleParams ?W5)"
  have p5: "fst ?r = Return credA"
    "\<not> buildClientFails (snd ?r) (BaseURL exampleParams)"
    "gitlabProject (snd ?r) (BaseURL exampleParams) (Value credA) ''group/project'' = Some 42"
    "list_ex (\<lambda>c. ID c = ID credA) (credentials (snd ?r))"
    by code_simp+
  have c5: "CredPrefix exampleParams = []" "TokenRaw exampleParams = []" by (simp_all add: url)
  have g5: "getProjectPath (URL exampleParams) = Return ''group/project''" by (simp only: url g)
  from Configure_strategy_order [where params = exampleParams and w = ?W5 and cred = credA
      and path = "''group/project''" and projectID = 42] reach(3) c5 g5 p5 p1(3)
  have "Configure exampleParams ?W5 =
           (Return (configurationOf exampleParams 42),
            emit [GetProject (BaseURL exampleParams) ''group/project'', AuthIdExist (ID credA)] (snd ?r))"
    by blast
  then have r5: "fst (Configure exampleParams ?W5) = Return (configurationOf exampleParams 42)"
    by simp
  have s5: "fst (promptTokenOptions ''alice'' (atCredential exampleParams ?W5)) = Return credA"
    using p5(1) by (simp only: user)
  have f6: "fst (promptTokenOptions (currentUserId exampleWorld) (atCredential exampleParams exampleWorld))
              = Failure ErrReadStdin"
    by code_simp
  from Configure_strategy_order [where params = exampleParams and w = exampleWorld
      and err = ErrReadStdin] reach(4) c5 f6
  have "Configure exampleParams exampleWorld
          = (Failure ErrReadStdin,
             snd (promptTokenOptions (currentUserId exampleWorld) (atCredential exampleParams exampleWorld)))"
    by blast
  then have r6: "fst (Configure exampleParams exampleWorld) = Failure ErrReadStdin" by simp
  from r2 v r4 t4' s5 r5 r6 show ?thesis by blast
qed

lemma Configure_Return_conf:
  assumes "fst (Configure params w) = Return conf"
  shows "\<exists>projectID. conf = [ConfigKeyTarget \<mapsto> target, keyProjectID \<mapsto> Itoa projectID,
            keyGitlabBaseUrl \<mapsto> BaseURL params]"
  using assms
  by (auto simp: Configure_def Let_def withDefaultURL_def
           split: if_splits prod.splits outcome.splits option.splits)

text \<open>
  C6, as stated, fails: a mapping without the base URL key passes the validation.
\<close>

theorem ValidateConfig_ignores_base_url:
  "ValidateConfig [ConfigKeyTarget \<mapsto> target, keyProjectID \<mapsto> ''42''] = None
   \<and> [ConfigKeyTarget \<mapsto> target, keyProjectID \<mapsto> ''42''] keyGitlabBaseUrl = None"
  by (simp add: ValidateConfig_def keys_distinct keys_distinct [symmetric])

text \<open>
  C6, amended. \<open>ValidateConfig\<close> succeeds exactly when the target key is present with
  the value of the target tag and the project id key is present; the base URL key is
  not looked at. The mapping a successful \<open>Configure\<close> returns has exactly the three keys
  target, project id and base URL, and passes the validation.
\<close>

theorem ValidateConfig_checks_target_and_project:
  "(ValidateConfig conf = None \<longleftrightarrow> conf ConfigKeyTarget = Some target \<and> conf keyProjectID \<noteq> None)
   \<and> (fst (Configure params w) = Return conf' \<longrightarrow>
        dom conf' = {ConfigKeyTarget, keyProjectID, keyGitlabBaseUrl} \<and> ValidateConfig conf' = None)"
proof -
  have a: "ValidateConfig conf = None \<longleftrightarrow> conf ConfigKeyTarget = Some target \<and> conf keyProjectID \<noteq> None"
    by (auto simp: ValidateConfig_def split: option.splits)
  have b: "dom conf' = {ConfigKeyTarget, keyProjectID, keyGitlabBaseUrl} \<and> ValidateConfig conf' = None"
    if "fst (Configure params w) = Return conf'"
  proof -
    from Configure_Return_conf [OF that] obtain projectID where
      "conf' = [ConfigKeyTarget \<mapsto> target, keyProjectID \<mapsto> Itoa projectID, keyGitlabBaseUrl \<mapsto> BaseURL params]"
      by blast
    then show ?thesis
      by (auto simp: ValidateConfig_def keys_distinct keys_distinct [symmetric])
  qed
  from a b show ?thesis by blast
qed

theorem ValidateConfig_checks_target_and_project_witness:
  "fst (Configure (exampleParams\<lparr>TokenRaw := ''abcdefghij0123456789''\<rparr>) exampleWorld)
     = Return [ConfigKeyTarget \<mapsto> target, keyProjectID \<mapsto> ''42'',
               keyGitlabBaseUrl \<mapsto> ''https://gitlab.example.com'']
   \<and> dom [ConfigKeyTarget \<mapsto> target, keyProjectID \<mapsto> ''42'',
           keyGitlabBaseUrl \<mapsto> ''https://gitlab.example.com'']
       = {ConfigKeyTarget, keyProjectID, keyGitlabBaseUrl}
   \<and> ValidateConfig [ConfigKeyTarget \<mapsto> target, keyProjectID \<mapsto> ''42'',
           keyGitlabBaseUrl \<mapsto> ''https://gitlab.example.com''] = None
   \<and> ValidateConfig [ConfigKeyTarget \<mapsto> ''github'', keyProjectID \<mapsto> ''42''] \<noteq> None
   \<and> ValidateConfig [ConfigKeyTarget \<mapsto> target] \<noteq> None"
proof -
  let ?C = "[ConfigKeyTarget \<mapsto> target, keyProjectID \<mapsto> ''42'',
             keyGitlabBaseUrl \<mapsto> ''https://gitlab.example.com'']"
  from ValidateConfig_checks_target_and_project
         [of ?C "exampleParams\<lparr>TokenRaw := ''abcdefghij0123456789''\<rparr>" exampleWorld ?C] example_run
  have 1: "dom ?C = {ConfigKeyTarget, keyProjectID, keyGitlabBaseUrl} \<and> ValidateConfig ?C = None"
    by blast
  from ValidateConfig_checks_target_and_project
         [of "[ConfigKeyTarget \<mapsto> ''github'', keyProjectID \<mapsto> ''42'']" params w conf']
  have 2: "ValidateConfig [ConfigKeyTarget \<mapsto> ''github'', keyProjectID \<mapsto> ''42''] \<noteq> None"
    by (simp add: keys_distinct target_def)
  from ValidateConfig_checks_target_and_project [of "[ConfigKeyTarget \<mapsto> target]" params w conf']
  have 3: "ValidateConfig [ConfigKeyTarget \<mapsto> target] \<noteq> None"
    by (simp add: keys_distinct keys_distinct [symmetric])
  from example_run 1 2 3 show ?thesis by blast
qed

section \<open>Storing the credential\<close>

lemma Configure_raw_token_run:
  assumes "TokenRaw params \<noteq> []" "CredPrefix params = []" "returned (Configure params w)"
  shows "credentials (snd (Configure params w)) =
           (if list_ex (\<lambda>c. ID c = tokenID w (currentUserId w) target (TokenRaw params)) (credentials w)
            then credentials w
            else credentials w
                   @ [\<lparr>Kind = KindToken, ID = tokenID w (currentUserId w) target (TokenRaw params),
                       UserId = currentUserId w, Target = target, Value = TokenRaw params,
                       CreateTime = now w\<rparr>])
         \<and> tokenID (snd (Configure params w)) = tokenID w
         \<and> userIdentity (snd (Configure params w)) = userIdentity w
         \<and> DefaultUserId (snd (Configure params w)) = DefaultUserId w"
  using assms
  by (simp add: Configure_def returned_def withDefaultURL_def projectURL_def credential_def
      validateProjectURL_def storeToken_def auth_IdExist_def auth_Store_def NewToken_def
      currentUserId_def emit_def Let_def
      split: if_splits outcome.splits option.splits prod.splits bool.splits
      cong: identity.case_cong)

text \<open>Nothing before the last step of \<open>Configure\<close> writes to the credential store.\<close>

lemma credentials_emit: "credentials (emit es w) = credentials w"
  by (simp add: emit_def)

lemma promptTokenLoop_credentials: "credentials (snd (promptTokenLoop w)) = credentials w"
proof (induction "stdin w" arbitrary: w)
  case Nil
  then have "stdin w = []" by simp
  then show ?case
    by (subst promptTokenLoop.simps) (simp add: ReadString_def emit_def)
next
  case (Cons l ls)
  then have s: "stdin w = l # ls" by simp
  have ih: "credentials (snd (promptTokenLoop w')) = credentials w'" if "stdin w' = ls" for w'
    using Cons.hyps(1) [of w'] that by simp
  show ?case
    using s
    by (subst promptTokenLoop.simps) (simp add: ReadString_def emit_def Let_def ih)
qed

lemma promptToken_credentials: "credentials (snd (promptToken w)) = credentials w"
  by (simp add: promptToken_def promptTokenLoop_credentials credentials_emit)

lemma tokenEntry_credentials: "credentials (snd (tokenEntry userId w)) = credentials w"
  using promptToken_credentials [of w]
  by (auto simp: tokenEntry_def split: prod.splits outcome.splits)

lemma promptTokenOptions_credentials:
  "credentials (snd (promptTokenOptions userId w)) = credentials w"
proof (induction "stdin w" arbitrary: w)
  case Nil
  then have "stdin w = []" by simp
  then show ?case
    by (subst promptTokenOptions.simps)
       (simp add: auth_List_def ReadString_def emit_def Let_def tokenEntry_credentials)
next
  case (Cons l ls)
  then have s: "stdin w = l # ls" by simp
  have ih: "credentials (snd (promptTokenOptions userId w')) = credentials w'" if "stdin w' = ls" for w'
    using Cons.hyps(1) [of w'] that by simp
  show ?case
    using s
    by (subst promptTokenOptions.simps)
       (simp add: auth_List_def ReadString_def emit_def Let_def tokenEntry_credentials ih
          split: option.splits)
qed

lemma promptURLManual_credentials: "credentials (snd (promptURLManual w)) = credentials w"
proof (induction "stdin w" arbitrary: w)
  case Nil
  then have "stdin w = []" by simp
  then show ?case
    by (subst promptURLManual.simps) (simp add: ReadString_def emit_def)
next
  case (Cons l ls)
  then have s: "stdin w = l # ls" by simp
  have ih: "credentials (snd (promptURLManual w')) = credentials w'" if "stdin w' = ls" for w'
    using Cons.hyps(1) [of w'] that by simp
  show ?case
    using s
    by (subst promptURLManual.simps) (simp add: ReadString_def emit_def Let_def ih)
qed

lemma promptURLSelect_credentials: "credentials (snd (promptURLSelect vr w)) = credentials w"
proof (induction "stdin w" arbitrary: w)
  case Nil
  then have "stdin w = []" by simp
  then show ?case
    by (subst promptURLSelect.simps) (simp add: ReadString_def emit_def)
next
  case (Cons l ls)
  then have s: "stdin w = l # ls" by simp
  have ih: "credentials (snd (promptURLSelect vr w')) = credentials w'" if "stdin w' = ls" for w'
    using Cons.hyps(1) [of w'] that by simp
  show ?case
    using s
    by (subst promptURLSelect.simps)
       (simp add: ReadString_def emit_def Let_def ih promptURLManual_credentials split: option.splits)
qed

lemma promptURL_credentials: "credentials (snd (promptURL w)) = credentials w"
  by (simp add: promptURL_def promptURLSelect_credentials promptURLManual_credentials emit_def
        split: option.splits outcome.splits)

lemma projectURL_credentials: "credentials (snd (projectURL params w)) = credentials w"
  using promptURL_credentials [of w]
  by (cases "promptURL w") (auto simp: projectURL_def split: outcome.splits)

lemma credential_credentials: "credentials (snd (credential params w)) = credentials w"
  by (simp add: credential_def auth_LoadWithPrefix_def promptTokenOptions_credentials emit_def Let_def
        split: list.splits identity.splits)

lemma validateProjectURL_credentials:
  "credentials (snd (validateProjectURL b u c w)) = credentials w"
  by (simp add: validateProjectURL_def emit_def split: outcome.splits option.splits)

lemma storeToken_credentials:
  "fst (storeToken cred w) = None \<Longrightarrow>
     credentials (snd (storeToken cred w))
       = (if list_ex (\<lambda>c. ID c = ID cred) (credentials w) then credentials w else credentials w @ [cred])"
  by (cases "list_ex (\<lambda>c. ID c = ID cred) (credentials w)")
     (simp_all add: storeToken_def auth_IdExist_def auth_Store_def emit_def split: if_splits)

lemma Configure_inserts_only_if_absent:
  assumes "returned (Configure params w)"
  shows "\<exists>cred. Kind cred = KindToken \<and> credentials (snd (Configure params w))
           = (if list_ex (\<lambda>c. ID c = ID cred) (credentials w) then credentials w else credentials w @ [cred])"
proof -
  let ?w = "emit (warnings params) w"
  let ?p = "withDefaultURL params ?w"
  from assms obtain url w1 where u: "projectURL ?p ?w = (Return url, w1)"
    by (auto simp: Configure_def returned_def Let_def split: if_splits prod.splits outcome.splits)
  let ?w2 = "emit [GetUserIdentity] w1"
  from assms u obtain cred w3 where c: "credential ?p ?w2 = (Return cred, w3)" and k: "Kind cred = KindToken"
    by (auto simp: Configure_def returned_def Let_def split: if_splits prod.splits outcome.splits)
  from assms u c k obtain projectID w4 where
    v: "validateProjectURL (BaseURL ?p) url cred w3 = (Return projectID, w4)"
    by (auto simp: Configure_def returned_def Let_def split: if_splits prod.splits outcome.splits)
  from assms u c k v have s: "fst (storeToken cred w4) = None"
    and r: "snd (Configure params w) = snd (storeToken cred w4)"
    by (auto simp: Configure_def returned_def Let_def split: if_splits prod.splits outcome.splits option.splits)
  have "credentials w4 = credentials w"
    using projectURL_credentials [of ?p ?w] credential_credentials [of ?p ?w2]
      validateProjectURL_credentials [of "BaseURL ?p" url cred w3] u c v
    by (simp add: emit_def)
  with storeToken_credentials [OF s] r k show ?thesis by auto
qed

text \<open>
  C9. A successful \<open>Configure\<close> leaves the store as it was when it already holds an
  entry with the identifier of the resolved credential, and appends that credential
  otherwise. Run with a raw token and then run again later with the same token, it
  resolves a credential with the same identifier both times (only the creation time
  differs); the second run leaves the store as the first left it, and a store that held
  at most one entry with that identifier holds exactly one afterwards.
\<close>

theorem Configure_stores_token_once:
  "(returned (Configure params w) \<longrightarrow>
      (\<exists>cred. Kind cred = KindToken \<and> credentials (snd (Configure params w))
          = (if list_ex (\<lambda>c. ID c = ID cred) (credentials w) then credentials w
             else credentials w @ [cred])))
   \<and> (TokenRaw params \<noteq> [] \<and> CredPrefix params = [] \<and> returned (Configure params w)
        \<and> returned (Configure params ((snd (Configure params w))\<lparr>now := t\<rparr>))
      \<longrightarrow> credentials (snd (Configure params ((snd (Configure params w))\<lparr>now := t\<rparr>)))
             = credentials (snd (Configure params w))
          \<and> list_ex (\<lambda>c. ID c = tokenID w (currentUserId w) target (TokenRaw params))
              (credentials (snd (Configure params w)))
          \<and> (length (filter (\<lambda>c. ID c = tokenID w (currentUserId w) target (TokenRaw params))
                       (credentials w)) \<le> 1
              \<longrightarrow> length (filter (\<lambda>c. ID c = tokenID w (currentUserId w) target (TokenRaw params))
                     (credentials (snd (Configure params ((snd (Configure params w))\<lparr>now := t\<rparr>))))) = 1))"
proof (intro conjI impI)
  assume "returned (Configure params w)"
  then show "\<exists>cred. Kind cred = KindToken \<and> credentials (snd (Configure params w))
          = (if list_ex (\<lambda>c. ID c = ID cred) (credentials w) then credentials w
             else credentials w @ [cred])"
    by (rule Configure_inserts_only_if_absent)
next
  let ?i = "tokenID w (currentUserId w) target (TokenRaw params)"
  let ?w1 = "snd (Configure params w)"
  let ?w1' = "?w1\<lparr>now := t\<rparr>"
  assume asm: "TokenRaw params \<noteq> [] \<and> CredPrefix params = [] \<and> returned (Configure params w)
        \<and> returned (Configure params ?w1')"
  then have first: "credentials ?w1 =
           (if list_ex (\<lambda>c. ID c = ?i) (credentials w) then credentials w
            else credentials w
                   @ [\<lparr>Kind = KindToken, ID = ?i, UserId = currentUserId w, Target = target,
                       Value = TokenRaw params, CreateTime = now w\<rparr>])
         \<and> tokenID ?w1 = tokenID w \<and> userIdentity ?w1 = userIdentity w
         \<and> DefaultUserId ?w1 = DefaultUserId w"
    using Configure_raw_token_run [of params w] by blast
  from asm have second: "credentials (snd (Configure params ?w1')) =
           (if list_ex (\<lambda>c. ID c = tokenID ?w1' (currentUserId ?w1') target (TokenRaw params)) (credentials ?w1')
            then credentials ?w1'
            else credentials ?w1'
                   @ [\<lparr>Kind = KindToken, ID = tokenID ?w1' (currentUserId ?w1') target (TokenRaw params),
                       UserId = currentUserId ?w1', Target = target, Value = TokenRaw params,
                       CreateTime = now ?w1'\<rparr>])"
    using Configure_raw_token_run [of params ?w1'] by blast
  have id: "tokenID ?w1' (currentUserId ?w1') target (TokenRaw params) = ?i"
    using first by (simp add: currentUserId_def cong: identity.case_cong)
  show there: "list_ex (\<lambda>c. ID c = ?i) (credentials ?w1)"
    using first by (simp add: list_ex_iff)
  show same: "credentials (snd (Configure params ?w1')) = credentials ?w1"
    using second id there by simp
  assume atmost: "length (filter (\<lambda>c. ID c = ?i) (credentials w)) \<le> 1"
  have "length (filter (\<lambda>c. ID c = ?i) (credentials ?w1)) = 1"
  proof (cases "list_ex (\<lambda>c. ID c = ?i) (credentials w)")
    case True
    then have "filter (\<lambda>c. ID c = ?i) (credentials w) \<noteq> []"
      by (auto simp: list_ex_iff filter_empty_conv)
    then have "length (filter (\<lambda>c. ID c = ?i) (credentials w)) \<noteq> 0" by simp
    with atmost have "length (filter (\<lambda>c. ID c = ?i) (credentials w)) = 1" by linarith
    with True first show ?thesis by simp
  next
    case False
    then have "filter (\<lambda>c. ID c = ?i) (credentials w) = []"
      by (auto simp: list_ex_iff filter_empty_conv)
    with False first show ?thesis by simp
  qed
  with same show "length (filter (\<lambda>c. ID c = ?i) (credentials (snd (Configure params ?w1')))) = 1"
    by simp
qed

theorem Configure_stores_token_once_witness:
  "TokenRaw (exampleParams\<lparr>TokenRaw := ''abcdefghij0123456789''\<rparr>) \<noteq> []
   \<and> CredPrefix (exampleParams\<lparr>TokenRaw := ''abcdefghij0123456789''\<rparr>) = []
   \<and> returned (Configure (exampleParams\<lparr>TokenRaw := ''abcdefghij0123456789''\<rparr>) exampleWorld)
   \<and> returned (Configure (exampleParams\<lparr>TokenRaw := ''abcdefghij0123456789''\<rparr>)
        ((snd (Configure (exampleParams\<lparr>TokenRaw := ''abcdefghij0123456789''\<rparr>) exampleWorld))\<lparr>now := 99\<rparr>))
   \<and> length (filter (\<lambda>c. ID c = ''alicegitlababcdefghij0123456789'') (credentials exampleWorld)) = 0
   \<and> credentials (snd (Configure (exampleParams\<lparr>TokenRaw := ''abcdefghij0123456789''\<rparr>)
        ((snd (Configure (exampleParams\<lparr>TokenRaw := ''abcdefghij0123456789''\<rparr>) exampleWorld))\<lparr>now := 99\<rparr>)))
       = credentials (snd (Configure (exampleParams\<lparr>TokenRaw := ''abcdefghij0123456789''\<rparr>) exampleWorld))
   \<and> length (filter (\<lambda>c. ID c = ''alicegitlababcdefghij0123456789'')
        (credentials (snd (Configure (exampleParams\<lparr>TokenRaw := ''abcdefghij0123456789''\<rparr>)
          ((snd (Configure (exampleParams\<lparr>TokenRaw := ''abcdefghij0123456789''\<rparr>) exampleWorld))\<lparr>now := 99\<rparr>))))) = 1"
proof -
  let ?P = "exampleParams\<lparr>TokenRaw := ''abcdefghij0123456789''\<rparr>"
  have h: "TokenRaw ?P \<noteq> []" "CredPrefix ?P = []" by (simp_all add: exampleParams_def)
  have r1: "returned (Configure ?P exampleWorld)" by code_simp
  have r2: "returned (Configure ?P ((snd (Configure ?P exampleWorld))\<lparr>now := 99\<rparr>))" by code_simp
  let ?i = "tokenID exampleWorld (currentUserId exampleWorld) target (TokenRaw ?P)"
  let ?second = "Configure ?P ((snd (Configure ?P exampleWorld))\<lparr>now := 99\<rparr>)"
  have i: "?i = ''alicegitlababcdefghij0123456789''"
    by (simp add: exampleWorld_def exampleParams_def currentUserId_def target_def)
  have z: "length (filter (\<lambda>c. ID c = ''alicegitlababcdefghij0123456789'') (credentials exampleWorld)) = 0"
    by (simp add: exampleWorld_def credA_def credB_def)
  then have le: "length (filter (\<lambda>c. ID c = ?i) (credentials exampleWorld)) \<le> 1"
    by (simp only: i)
  note T = Configure_stores_token_once [of ?P exampleWorld 99]
  from T h r1 r2 have same: "credentials (snd ?second) = credentials (snd (Configure ?P exampleWorld))"
    by blast
  from T h r1 r2 le have "length (filter (\<lambda>c. ID c = ?i) (credentials (snd ?second))) = 1"
    by blast
  then have one: "length (filter (\<lambda>c. ID c = ''alicegitlababcdefghij0123456789'')
      (credentials (snd ?second))) = 1"
    by (simp only: i)
  from h r1 r2 z same one show ?thesis by blast
qed

end
